theory Spec2Isabelle
  imports Complex_Main
begin

section \<open>Go runtime: panics, errors, slices, formatting\<close>

text \<open>
  A Go function of this provider either returns normally, returns a non-nil \<open>error\<close>
  (carried here as its message), or panics. A panic is never recovered in this package.
\<close>

datatype panic =
    TypeAssertion string
  | NilDereference
  | PanicErr string

datatype 'a result = Panic panic | Err string | Ok 'a

definition bindR :: "'a result \<Rightarrow> ('a \<Rightarrow> 'b result) \<Rightarrow> 'b result" where
  "bindR m f = (case m of Panic p \<Rightarrow> Panic p | Err e \<Rightarrow> Err e | Ok x \<Rightarrow> f x)"

text \<open>
  A Go slice is \<open>nil\<close> (\<open>None\<close>) or holds elements; \<open>append\<close> on a nil slice allocates,
  \<open>range\<close> over a nil slice runs zero times, and \<open>encoding/json\<close> writes a nil slice as
  \<open>null\<close> but an empty one as \<open>[]\<close>.
\<close>

type_synonym 'a slice = "'a list option"

definition go_append :: "'a slice \<Rightarrow> 'a \<Rightarrow> 'a slice" where
  "go_append s x = (case s of None \<Rightarrow> Some [x] | Some xs \<Rightarrow> Some (xs @ [x]))"

definition go_range :: "'a slice \<Rightarrow> 'a list" where
  "go_range s = (case s of None \<Rightarrow> [] | Some xs \<Rightarrow> xs)"

text \<open>\<open>fmt\<close>'s verb \<open>%d\<close> on an \<open>int\<close>: decimal digits, with a minus sign when negative.\<close>

fun digits_of :: "nat \<Rightarrow> string" where
  "digits_of n =
     (if n < 10 then [''0123456789'' ! n]
      else digits_of (n div 10) @ [''0123456789'' ! (n mod 10)])"

declare digits_of.simps [simp del]

definition fmt_d :: "int \<Rightarrow> string" where
  "fmt_d i = (if i < 0 then CHR ''-'' # digits_of (nat (- i)) else digits_of (nat i))"

text \<open>\<open>strings.Split(s, "/")\<close>: the pieces between separators; an empty \<open>s\<close> gives one empty piece.\<close>

fun strings_Split :: "string \<Rightarrow> char \<Rightarrow> string list" where
  "strings_Split [] sep = [[]]"
| "strings_Split (x # xs) sep =
     (if x = sep then [] # strings_Split xs sep
      else (case strings_Split xs sep of
              [] \<Rightarrow> [[x]]
            | p # ps \<Rightarrow> (x # p) # ps))"

definition strings_HasPrefix :: "string \<Rightarrow> string \<Rightarrow> bool" where
  "strings_HasPrefix s pre = (take (length pre) s = pre)"

section \<open>The plugin SDK's \<open>schema.ResourceData\<close>\<close>

text \<open>
  \<open>d.Get\<close> returns an \<open>interface{}\<close>; its dynamic type follows the schema type of the key:
  \<open>string\<close>, \<open>bool\<close>, \<open>int\<close>, \<open>float64\<close>, \<open>*schema.Set\<close> for a \<open>TypeSet\<close>,
  \<open>[]interface{}\<close> for a \<open>TypeList\<close>, \<open>map[string]interface{}\<close> for an element of a
  nested resource, and the nil interface for a key the schema does not have.
  A set is kept as a duplicate-free list and \<open>List()\<close> enumerates it in that order
  (the SDK orders by element hash; nothing below depends on the order chosen).
  A \<open>float64\<close> is only ever copied by this provider and is carried as a real number.
\<close>

datatype tfvalue =
    TFNil
  | TFString string
  | TFBool bool
  | TFInt int
  | TFFloat real
  | TFSet "tfvalue list"
  | TFList "tfvalue list"
  | TFMap "(string \<times> tfvalue) list"

datatype ValueType = TypeBool | TypeInt | TypeFloat | TypeString | TypeList | TypeSet

record ResourceData =
  rd_schema :: "(string \<times> ValueType) list"
  rd_attrs :: "string \<rightharpoonup> tfvalue"
  rd_id :: string
  rd_partial :: bool

fun zero_value :: "ValueType \<Rightarrow> tfvalue" where
  "zero_value TypeBool = TFBool False"
| "zero_value TypeInt = TFInt 0"
| "zero_value TypeFloat = TFFloat 0"
| "zero_value TypeString = TFString []"
| "zero_value TypeList = TFList []"
| "zero_value TypeSet = TFSet []"

definition d_Get :: "ResourceData \<Rightarrow> string \<Rightarrow> tfvalue" where
  "d_Get d k =
     (case map_of (rd_schema d) k of
        None \<Rightarrow> TFNil
      | Some ty \<Rightarrow> (case rd_attrs d k of None \<Rightarrow> zero_value ty | Some v \<Rightarrow> v))"

text \<open>
  \<open>d.Set\<close> refuses a key the schema does not have and a value whose Go type does not fit
  the schema type of the key; a Go slice written to a \<open>TypeSet\<close> key becomes a set.
\<close>

fun convert_value :: "ValueType \<Rightarrow> tfvalue \<Rightarrow> tfvalue option" where
  "convert_value TypeBool (TFBool b) = Some (TFBool b)"
| "convert_value TypeInt (TFInt i) = Some (TFInt i)"
| "convert_value TypeFloat (TFFloat r) = Some (TFFloat r)"
| "convert_value TypeString (TFString s) = Some (TFString s)"
| "convert_value TypeList (TFList xs) = Some (TFList xs)"
| "convert_value TypeSet (TFList xs) = Some (TFSet (remdups xs))"
| "convert_value TypeSet (TFSet xs) = Some (TFSet xs)"
| "convert_value _ _ = None"

definition d_Set :: "ResourceData \<Rightarrow> string \<Rightarrow> tfvalue \<Rightarrow> string + ResourceData" where
  "d_Set d k v =
     (case map_of (rd_schema d) k of
        None \<Rightarrow> Inl (''Invalid address to set: '' @ k)
      | Some ty \<Rightarrow>
          (case convert_value ty v of
             None \<Rightarrow> Inl (k @ '': value does not match the schema type'')
           | Some v' \<Rightarrow> Inr (d\<lparr>rd_attrs := (rd_attrs d)(k \<mapsto> v')\<rparr>)))"

definition d_SetId :: "ResourceData \<Rightarrow> string \<Rightarrow> ResourceData" where
  "d_SetId d i = d\<lparr>rd_id := i\<rparr>"

definition d_Partial :: "ResourceData \<Rightarrow> bool \<Rightarrow> ResourceData" where
  "d_Partial d b = d\<lparr>rd_partial := b\<rparr>"

text \<open>The idiom \<open>if tfErr := d.Set(k, v); tfErr != nil { panic(tfErr) }\<close>.\<close>

definition set_or_panic :: "ResourceData \<Rightarrow> string \<Rightarrow> tfvalue \<Rightarrow> ResourceData result" where
  "set_or_panic d k v = (case d_Set d k v of Inl e \<Rightarrow> Panic (PanicErr e) | Inr d' \<Rightarrow> Ok d')"

text \<open>Type assertions \<open>x.(T)\<close>: they panic when the dynamic type of \<open>x\<close> is not \<open>T\<close>.\<close>

definition as_string :: "tfvalue \<Rightarrow> string result" where
  "as_string v = (case v of TFString s \<Rightarrow> Ok s | _ \<Rightarrow> Panic (TypeAssertion ''string''))"

definition as_bool :: "tfvalue \<Rightarrow> bool result" where
  "as_bool v = (case v of TFBool b \<Rightarrow> Ok b | _ \<Rightarrow> Panic (TypeAssertion ''bool''))"

definition as_int :: "tfvalue \<Rightarrow> int result" where
  "as_int v = (case v of TFInt i \<Rightarrow> Ok i | _ \<Rightarrow> Panic (TypeAssertion ''int''))"

definition as_float64 :: "tfvalue \<Rightarrow> real result" where
  "as_float64 v = (case v of TFFloat r \<Rightarrow> Ok r | _ \<Rightarrow> Panic (TypeAssertion ''float64''))"

definition as_Set :: "tfvalue \<Rightarrow> tfvalue list result" where
  "as_Set v = (case v of TFSet xs \<Rightarrow> Ok xs | _ \<Rightarrow> Panic (TypeAssertion ''*schema.Set''))"

definition as_slice :: "tfvalue \<Rightarrow> tfvalue list result" where
  "as_slice v = (case v of TFList xs \<Rightarrow> Ok xs | _ \<Rightarrow> Panic (TypeAssertion ''[]interface {}''))"

definition as_map :: "tfvalue \<Rightarrow> (string \<times> tfvalue) list result" where
  "as_map v = (case v of TFMap m \<Rightarrow> Ok m | _ \<Rightarrow> Panic (TypeAssertion ''map[string]interface {}''))"

definition map_index :: "(string \<times> tfvalue) list \<Rightarrow> string \<Rightarrow> tfvalue" where
  "map_index m k = (case map_of m k of None \<Rightarrow> TFNil | Some v \<Rightarrow> v)"

definition get_string :: "ResourceData \<Rightarrow> string \<Rightarrow> string result" where
  "get_string d k = as_string (d_Get d k)"

definition get_bool :: "ResourceData \<Rightarrow> string \<Rightarrow> bool result" where
  "get_bool d k = as_bool (d_Get d k)"

section \<open>The application resource: wire records and codec\<close>

text \<open>
  Modelled from the spec: the struct \<open>jsonApplicationLocalDomain\<close> and the Go type of its
  field \<open>PasswordChangePluginParameters\<close> are declared in a file of the package that is
  not among the sources at hand. The spec has local domains as nested child records with
  their own id, decoded into an ordered sequence of flat mappings, and the plugin parameters
  as an opaque payload re-serialized to a string. The struct is taken with the fields
  \<open>fillApplication\<close> reads, typed as the schema of \<open>local_domains\<close> types them; the type
  of the plugin parameters is left open and \<open>json.Marshal\<close> on it is a parameter.
\<close>

typedecl plugin_parameters

record jsonApplicationLocalDomain =
  ld_ID :: string
  ld_AdminAccount :: string
  ld_DomainName :: string
  ld_Description :: string
  ld_EnablePasswordChange :: bool
  ld_PasswordChangePolicy :: string
  ld_PasswordChangePlugin :: string
  ld_PasswordChangePluginParameters :: plugin_parameters

record jsonApplicationPath =
  path_Target :: string
  path_Program :: string
  path_WorkingDir :: string

record jsonApplication =
  app_ID :: string
  app_ApplicationName :: string
  app_ConnectionPolicy :: string
  app_Description :: string
  app_Parameters :: string
  app_Target :: string
  app_GlobalDomains :: "string slice"
  app_Paths :: "jsonApplicationPath slice"
  app_LocalDomains :: "jsonApplicationLocalDomain list option"

definition zero_jsonApplication :: jsonApplication where
  "zero_jsonApplication =
     \<lparr>app_ID = [], app_ApplicationName = [], app_ConnectionPolicy = [], app_Description = [],
      app_Parameters = [], app_Target = [], app_GlobalDomains = None, app_Paths = None,
      app_LocalDomains = None\<rparr>"

definition applicationSchema :: "(string \<times> ValueType) list" where
  "applicationSchema =
     [(''application_name'', TypeString),
      (''connection_policy'', TypeString),
      (''paths'', TypeSet),
      (''target'', TypeString),
      (''description'', TypeString),
      (''global_domains'', TypeSet),
      (''parameters'', TypeString),
      (''local_domains'', TypeList)]"

text \<open>The loop over \<open>paths\<close> in \<open>prepareApplicationJSON\<close>.\<close>

fun prepare_paths :: "jsonApplicationPath slice \<Rightarrow> tfvalue list \<Rightarrow> jsonApplicationPath slice result" where
  "prepare_paths acc [] = Ok acc"
| "prepare_paths acc (v # vs) =
     bindR (as_map v) (\<lambda>m.
     bindR (as_string (map_index m ''target'')) (\<lambda>t.
     bindR (as_string (map_index m ''program'')) (\<lambda>p.
     bindR (as_string (map_index m ''working_dir'')) (\<lambda>w.
       prepare_paths
         (go_append acc \<lparr>path_Target = t, path_Program = p, path_WorkingDir = w\<rparr>) vs))))"

text \<open>The loop over \<open>global_domains\<close> in \<open>prepareApplicationJSON\<close>.\<close>

fun prepare_domains :: "string slice \<Rightarrow> tfvalue list \<Rightarrow> string slice result" where
  "prepare_domains acc [] = Ok acc"
| "prepare_domains acc (v # vs) =
     bindR (as_string v) (\<lambda>s. prepare_domains (go_append acc s) vs)"

definition prepareApplicationJSON :: "ResourceData \<Rightarrow> jsonApplication result" where
  "prepareApplicationJSON d =
     bindR (get_string d ''application_name'') (\<lambda>name.
     bindR (get_string d ''connection_policy'') (\<lambda>policy.
     bindR (get_string d ''description'') (\<lambda>descr.
     bindR (get_string d ''parameters'') (\<lambda>params.
     bindR (get_string d ''target'') (\<lambda>target.
     bindR (as_Set (d_Get d ''paths'')) (\<lambda>pathList.
     bindR (prepare_paths None pathList) (\<lambda>paths.
     bindR (as_Set (d_Get d ''global_domains'')) (\<lambda>domList.
     bindR (if length domList > 0
            then bindR (as_slice (d_Get d ''global_domains'')) (prepare_domains None)
            else Ok (Some [])) (\<lambda>domains.
       Ok \<lparr>app_ID = [], app_ApplicationName = name, app_ConnectionPolicy = policy,
           app_Description = descr, app_Parameters = params, app_Target = target,
           app_GlobalDomains = domains, app_Paths = paths, app_LocalDomains = None\<rparr>)))))))))"

definition fill_path :: "jsonApplicationPath \<Rightarrow> tfvalue" where
  "fill_path v =
     TFMap [(''target'', TFString (path_Target v)),
            (''program'', TFString (path_Program v)),
            (''working_dir'', TFString (path_WorkingDir v))]"

definition fill_localDomain :: "(plugin_parameters \<Rightarrow> string) \<Rightarrow> jsonApplicationLocalDomain \<Rightarrow> tfvalue" where
  "fill_localDomain marshal v =
     TFMap ([(''id'', TFString (ld_ID v)),
             (''admin_account'', TFString (ld_AdminAccount v)),
             (''domain_name'', TFString (ld_DomainName v)),
             (''description'', TFString (ld_Description v)),
             (''enable_password_change'', TFBool (ld_EnablePasswordChange v)),
             (''password_change_policy'', TFString (ld_PasswordChangePolicy v)),
             (''password_change_plugin'', TFString (ld_PasswordChangePlugin v))]
            @ [(''password_change_plugin_parameters'',
                TFString (marshal (ld_PasswordChangePluginParameters v)))])"

definition fillApplication ::
  "(plugin_parameters \<Rightarrow> string) \<Rightarrow> ResourceData \<Rightarrow> jsonApplication \<Rightarrow> ResourceData result" where
  "fillApplication marshal d jsonData =
     bindR (set_or_panic d ''application_name'' (TFString (app_ApplicationName jsonData))) (\<lambda>d.
     bindR (set_or_panic d ''connection_policy'' (TFString (app_ConnectionPolicy jsonData))) (\<lambda>d.
     bindR (set_or_panic d ''paths'' (TFList (map fill_path (go_range (app_Paths jsonData))))) (\<lambda>d.
     bindR (set_or_panic d ''target'' (TFString (app_Target jsonData))) (\<lambda>d.
     bindR (set_or_panic d ''description'' (TFString (app_Description jsonData))) (\<lambda>d.
     bindR (set_or_panic d ''global_domains''
              (TFList (map TFString (go_range (app_GlobalDomains jsonData))))) (\<lambda>d.
     bindR (set_or_panic d ''parameters'' (TFString (app_Parameters jsonData))) (\<lambda>d.
     bindR (case app_LocalDomains jsonData of
              None \<Rightarrow> Panic NilDereference
            | Some lds \<Rightarrow> Ok (map (fill_localDomain marshal) lds)) (\<lambda>localDomains.
       set_or_panic d ''local_domains'' (TFList localDomains)))))))))"

section \<open>The other wire records\<close>

record jsonDeviceLocalDomainAccountCredential =
  cred_ID :: string
  cred_Type :: string
  cred_Password :: string
  cred_PrivateKey :: string
  cred_PublicKey :: string
  cred_Passphrase :: string

definition zero_jsonDeviceLocalDomainAccountCredential :: jsonDeviceLocalDomainAccountCredential where
  "zero_jsonDeviceLocalDomainAccountCredential =
     \<lparr>cred_ID = [], cred_Type = [], cred_Password = [], cred_PrivateKey = [],
      cred_PublicKey = [], cred_Passphrase = []\<rparr>"

record jsonExternalAuthLdap =
  ldap_IsActiveDirectory :: bool
  ldap_IsAnonymousAccess :: bool
  ldap_IsProtectedUser :: bool
  ldap_IsSSL :: bool
  ldap_IsStartTLS :: bool
  ldap_UsePrimaryAuthDomain :: bool
  ldap_Port :: int
  ldap_Timeout :: real
  ldap_ID :: string
  ldap_AuthenticationName :: string
  ldap_CACertificate :: string
  ldap_Certificate :: string
  ldap_CNAttribute :: string
  ldap_Description :: string
  ldap_LDAPBase :: string
  ldap_Login :: string
  ldap_LoginAttribute :: string
  ldap_Host :: string
  ldap_Password :: string
  ldap_PrivateKey :: string
  ldap_Type :: string

definition zero_jsonExternalAuthLdap :: jsonExternalAuthLdap where
  "zero_jsonExternalAuthLdap =
     \<lparr>ldap_IsActiveDirectory = False, ldap_IsAnonymousAccess = False, ldap_IsProtectedUser = False,
      ldap_IsSSL = False, ldap_IsStartTLS = False, ldap_UsePrimaryAuthDomain = False,
      ldap_Port = 0, ldap_Timeout = 0, ldap_ID = [], ldap_AuthenticationName = [],
      ldap_CACertificate = [], ldap_Certificate = [], ldap_CNAttribute = [], ldap_Description = [],
      ldap_LDAPBase = [], ldap_Login = [], ldap_LoginAttribute = [], ldap_Host = [],
      ldap_Password = [], ldap_PrivateKey = [], ldap_Type = []\<rparr>"

record jsonLocalpasswordpolicy =
  lpp_AllowSameUserAndPassword :: bool
  lpp_ID :: string
  lpp_PasswordPolicyName :: string
  lpp_PasswordExpiration :: int
  lpp_PasswordWarningDays :: int
  lpp_PasswordMinLength :: int
  lpp_PasswordMinLowerChars :: int
  lpp_PasswordMinUpperChars :: int
  lpp_PasswordMinDigitChars :: int
  lpp_PasswordMinSpecialChars :: int
  lpp_LastPasswordsToReject :: int
  lpp_MaxAuthFailures :: int
  lpp_SSHRsaMinLength :: int
  lpp_ForbiddenPasswords :: "string slice"
  lpp_SSHKeyAlgosAllowed :: "string slice"

section \<open>The transport and the state of an operation\<close>

text \<open>
  \<open>Client.newRequest(ctx, path, method, body)\<close> returns \<open>(body, code, err)\<close>. The client and
  the appliance behind it are outside the sources at hand: the transport is a parameter that
  answers a request given the requests made before it, and every call is recorded. Every
  call lengthens the record, so any sequence of answers is the behaviour of some transport.
\<close>

datatype request_body =
    NoBody
  | ApplicationBody jsonApplication
  | CredentialBody jsonDeviceLocalDomainAccountCredential
  | LdapBody jsonExternalAuthLdap

record request =
  req_path :: string
  req_method :: string
  req_body :: request_body

record response =
  resp_body :: string
  resp_code :: int
  resp_err :: "string option"

record Client =
  bastionAPIVersion :: string
  transport :: "request list \<Rightarrow> request \<Rightarrow> response"

abbreviation http_MethodGet :: string where "http_MethodGet \<equiv> ''GET''"
abbreviation http_MethodPost :: string where "http_MethodPost \<equiv> ''POST''"
abbreviation http_MethodPut :: string where "http_MethodPut \<equiv> ''PUT''"
abbreviation http_MethodDelete :: string where "http_MethodDelete \<equiv> ''DELETE''"
abbreviation http_StatusOK :: int where "http_StatusOK \<equiv> 200"
abbreviation http_StatusNoContent :: int where "http_StatusNoContent \<equiv> 204"
abbreviation http_StatusNotFound :: int where "http_StatusNotFound \<equiv> 404"

text \<open>
  A function that takes only the client works on the record of requests; a function that
  also takes \<open>d\<close> works on \<open>d\<close> and the record of requests together.
\<close>

type_synonym 'a net = "request list \<Rightarrow> 'a result \<times> request list"

record world =
  rdata :: ResourceData
  requests :: "request list"

type_synonym 'a action = "world \<Rightarrow> 'a result \<times> world"

definition returnA :: "'a \<Rightarrow> 's \<Rightarrow> 'a result \<times> 's" where
  "returnA x s = (Ok x, s)"

definition failA :: "string \<Rightarrow> 's \<Rightarrow> 'a result \<times> 's" where
  "failA e s = (Err e, s)"

definition bindA ::
  "('s \<Rightarrow> 'a result \<times> 's) \<Rightarrow> ('a \<Rightarrow> 's \<Rightarrow> 'b result \<times> 's) \<Rightarrow> 's \<Rightarrow> 'b result \<times> 's" where
  "bindA m f s =
     (case m s of
        (Panic p, s') \<Rightarrow> (Panic p, s')
      | (Err e, s') \<Rightarrow> (Err e, s')
      | (Ok x, s') \<Rightarrow> f x s')"

definition check :: "string option \<Rightarrow> 's \<Rightarrow> unit result \<times> 's" where
  "check err s = (case err of None \<Rightarrow> (Ok (), s) | Some e \<Rightarrow> (Err e, s))"

definition on_net :: "'a net \<Rightarrow> 'a action" where
  "on_net m w = (case m (requests w) of (r, l) \<Rightarrow> (r, w\<lparr>requests := l\<rparr>))"

definition reads :: "(ResourceData \<Rightarrow> 'a result) \<Rightarrow> 'a action" where
  "reads f w = (f (rdata w), w)"

definition updates :: "(ResourceData \<Rightarrow> ResourceData result) \<Rightarrow> unit action" where
  "updates f w =
     (case f (rdata w) of
        Panic p \<Rightarrow> (Panic p, w)
      | Err e \<Rightarrow> (Err e, w)
      | Ok d \<Rightarrow> (Ok (), w\<lparr>rdata := d\<rparr>))"

definition newRequest :: "Client \<Rightarrow> string \<Rightarrow> string \<Rightarrow> request_body \<Rightarrow> response net" where
  "newRequest c path method body l =
     (let r = \<lparr>req_path = path, req_method = method, req_body = body\<rparr>
      in (Ok (transport c l r), l @ [r]))"

text \<open>
  What the package uses and the sources at hand do not hold: the constant
  \<open>versionValidate3_3\<close>, the table \<open>defaultVersionsValid()\<close>, \<open>json.Unmarshal\<close> at each
  wire type (an error message, or the decoded value), \<open>json.Marshal\<close> on plugin parameters,
  and the three readers of the parents of a credential, of which only the \<open>ID\<close> of the
  result is used.
\<close>

record env =
  versionValidate3_3 :: string
  defaultVersionsValid :: "string list"
  marshalPluginParameters :: "plugin_parameters \<Rightarrow> string"
  unmarshalApplications :: "string \<Rightarrow> string + jsonApplication list"
  unmarshalApplication :: "string \<Rightarrow> string + jsonApplication"
  unmarshalCredentials :: "string \<Rightarrow> string + jsonDeviceLocalDomainAccountCredential list"
  unmarshalCredential :: "string \<Rightarrow> string + jsonDeviceLocalDomainAccountCredential"
  unmarshalExternalAuthLdaps :: "string \<Rightarrow> string + jsonExternalAuthLdap list"
  unmarshalExternalAuthLdap :: "string \<Rightarrow> string + jsonExternalAuthLdap"
  unmarshalLocalpasswordpolicies :: "string \<Rightarrow> string + jsonLocalpasswordpolicy list"
  readDeviceOptions :: "Client \<Rightarrow> string \<Rightarrow> string net"
  readDeviceLocalDomainOptions :: "Client \<Rightarrow> string \<Rightarrow> string \<Rightarrow> string net"
  readDeviceLocalDomainAccountOptions :: "Client \<Rightarrow> string \<Rightarrow> string \<Rightarrow> string \<Rightarrow> string net"

section \<open>The application resource: operations\<close>

definition resourceApplicationVersionCheck :: "env \<Rightarrow> string \<Rightarrow> string option" where
  "resourceApplicationVersionCheck e version =
     (if version = versionValidate3_3 e then None
      else Some (''resource wallix-bastion_application not validate with api version '' @ version))"

definition searchResourceApplication :: "env \<Rightarrow> Client \<Rightarrow> string \<Rightarrow> (string \<times> bool) net" where
  "searchResourceApplication e c applicationName =
     bindA (newRequest c ''/applications/?fields=application_name,id&limit=-1'' http_MethodGet NoBody)
       (\<lambda>r.
     case resp_err r of Some err \<Rightarrow> failA err | None \<Rightarrow>
     if resp_code r \<noteq> http_StatusOK
     then failA (''api doesn't return OK : '' @ fmt_d (resp_code r) @ '' with body :''
                 @ [CHR 0x0A] @ resp_body r)
     else
     case unmarshalApplications e (resp_body r) of
       Inl err \<Rightarrow> failA (''json.Unmarshal failed : '' @ err)
     | Inr results \<Rightarrow>
         (case find (\<lambda>v. app_ApplicationName v = applicationName) results of
            Some v \<Rightarrow> returnA (app_ID v, True)
          | None \<Rightarrow> returnA ([], False)))"

definition addApplication :: "Client \<Rightarrow> unit action" where
  "addApplication c =
     bindA (reads prepareApplicationJSON) (\<lambda>jsonData.
     bindA (on_net (newRequest c ''/applications/'' http_MethodPost (ApplicationBody jsonData))) (\<lambda>r.
     case resp_err r of Some err \<Rightarrow> failA err | None \<Rightarrow>
     if resp_code r \<noteq> http_StatusOK \<and> resp_code r \<noteq> http_StatusNoContent
     then failA (''api doesn't return OK or NoContent : '' @ fmt_d (resp_code r) @ '' with body :''
                 @ [CHR 0x0A] @ resp_body r)
     else returnA ()))"

definition updateApplication :: "Client \<Rightarrow> unit action" where
  "updateApplication c =
     bindA (reads prepareApplicationJSON) (\<lambda>jsonData.
     bindA (reads (\<lambda>d. Ok (rd_id d))) (\<lambda>i.
     bindA (on_net (newRequest c (''/applications/'' @ i @ ''?force=true'') http_MethodPut
                      (ApplicationBody jsonData))) (\<lambda>r.
     case resp_err r of Some err \<Rightarrow> failA err | None \<Rightarrow>
     if resp_code r \<noteq> http_StatusOK \<and> resp_code r \<noteq> http_StatusNoContent
     then failA (''api doesn't return OK or NoContent : '' @ fmt_d (resp_code r) @ '' with body :''
                 @ [CHR 0x0A] @ resp_body r)
     else returnA ())))"

definition deleteApplication :: "Client \<Rightarrow> unit action" where
  "deleteApplication c =
     bindA (reads (\<lambda>d. Ok (rd_id d))) (\<lambda>i.
     bindA (on_net (newRequest c (''/applications/'' @ i) http_MethodDelete NoBody)) (\<lambda>r.
     case resp_err r of Some err \<Rightarrow> failA err | None \<Rightarrow>
     if resp_code r \<noteq> http_StatusOK \<and> resp_code r \<noteq> http_StatusNoContent
     then failA (''api doesn't return OK or NoContent : '' @ fmt_d (resp_code r) @ '' with body :''
                 @ [CHR 0x0A] @ resp_body r)
     else returnA ()))"

definition readApplicationOptions :: "env \<Rightarrow> Client \<Rightarrow> string \<Rightarrow> jsonApplication net" where
  "readApplicationOptions e c applicationID =
     bindA (newRequest c (''/applications/'' @ applicationID) http_MethodGet NoBody) (\<lambda>r.
     case resp_err r of Some err \<Rightarrow> failA err | None \<Rightarrow>
     if resp_code r = http_StatusNotFound then returnA zero_jsonApplication
     else if resp_code r \<noteq> http_StatusOK
     then failA (''api doesn't return OK : '' @ fmt_d (resp_code r) @ '' with body :''
                 @ [CHR 0x0A] @ resp_body r)
     else
     case unmarshalApplication e (resp_body r) of
       Inl err \<Rightarrow> failA (''json.Unmarshal failed : '' @ err)
     | Inr result \<Rightarrow> returnA result)"

definition resourceApplicationRead :: "env \<Rightarrow> Client \<Rightarrow> unit action" where
  "resourceApplicationRead e c =
     bindA (check (resourceApplicationVersionCheck e (bastionAPIVersion c))) (\<lambda>_.
     bindA (reads (\<lambda>d. Ok (rd_id d))) (\<lambda>i.
     bindA (on_net (readApplicationOptions e c i)) (\<lambda>cfg.
     if app_ID cfg = []
     then updates (\<lambda>d. Ok (d_SetId d []))
     else updates (\<lambda>d. fillApplication (marshalPluginParameters e) d cfg))))"

definition resourceApplicationCreate :: "env \<Rightarrow> Client \<Rightarrow> unit action" where
  "resourceApplicationCreate e c =
     bindA (check (resourceApplicationVersionCheck e (bastionAPIVersion c))) (\<lambda>_.
     bindA (reads (\<lambda>d. get_string d ''application_name'')) (\<lambda>name.
     bindA (on_net (searchResourceApplication e c name)) (\<lambda>(_, ex).
     if ex then failA (''application_name '' @ name @ '' already exists'') else
     bindA (addApplication c) (\<lambda>_.
     bindA (reads (\<lambda>d. get_string d ''application_name'')) (\<lambda>name.
     bindA (on_net (searchResourceApplication e c name)) (\<lambda>(i, ex).
     if \<not> ex then failA (''application_name '' @ name @ '' can't find after POST'') else
     bindA (updates (\<lambda>d. Ok (d_SetId d i))) (\<lambda>_.
     resourceApplicationRead e c)))))))"

definition resourceApplicationUpdate :: "env \<Rightarrow> Client \<Rightarrow> unit action" where
  "resourceApplicationUpdate e c =
     bindA (updates (\<lambda>d. Ok (d_Partial d True))) (\<lambda>_.
     bindA (check (resourceApplicationVersionCheck e (bastionAPIVersion c))) (\<lambda>_.
     bindA (updateApplication c) (\<lambda>_.
     bindA (updates (\<lambda>d. Ok (d_Partial d False))) (\<lambda>_.
     resourceApplicationRead e c))))"

definition resourceApplicationDelete :: "env \<Rightarrow> Client \<Rightarrow> unit action" where
  "resourceApplicationDelete e c =
     bindA (check (resourceApplicationVersionCheck e (bastionAPIVersion c))) (\<lambda>_.
     deleteApplication c)"

definition resourceApplicationImport :: "env \<Rightarrow> Client \<Rightarrow> ResourceData list action" where
  "resourceApplicationImport e c =
     bindA (check (resourceApplicationVersionCheck e (bastionAPIVersion c))) (\<lambda>_.
     bindA (reads (\<lambda>d. Ok (rd_id d))) (\<lambda>given.
     bindA (on_net (searchResourceApplication e c given)) (\<lambda>(i, ex).
     if \<not> ex
     then failA (''don't find application_name with id '' @ given
                 @ '' (id must be <application_name>'')
     else
     bindA (on_net (readApplicationOptions e c i)) (\<lambda>cfg.
     bindA (updates (\<lambda>d. fillApplication (marshalPluginParameters e) d cfg)) (\<lambda>_.
     bindA (updates (\<lambda>d. Ok (d_SetId d i))) (\<lambda>_.
     bindA (reads Ok) (\<lambda>d. returnA [d])))))))"

section \<open>The device local-domain account credential resource\<close>

definition credentialSchema :: "(string \<times> ValueType) list" where
  "credentialSchema =
     [(''device_id'', TypeString),
      (''domain_id'', TypeString),
      (''account_id'', TypeString),
      (''type'', TypeString),
      (''passphrase'', TypeString),
      (''password'', TypeString),
      (''private_key'', TypeString),
      (''public_key'', TypeString)]"

definition resourveDeviceLocalDomainAccountCredentialVersionCheck :: "env \<Rightarrow> string \<Rightarrow> string option" where
  "resourveDeviceLocalDomainAccountCredentialVersionCheck e version =
     (if version = versionValidate3_3 e then None
      else Some (''resource wallix-bastion_device_localdomain not validate with api version ''
                 @ version))"

definition credentials_path :: "string \<Rightarrow> string \<Rightarrow> string \<Rightarrow> string" where
  "credentials_path deviceID domainID accountID =
     ''/devices/'' @ deviceID @ ''/localdomains/'' @ domainID @ ''/accounts/'' @ accountID
     @ ''/credentials/''"

definition searchResourceDeviceLocalDomainAccountCredential ::
  "env \<Rightarrow> Client \<Rightarrow> string \<Rightarrow> string \<Rightarrow> string \<Rightarrow> string \<Rightarrow> (string \<times> bool) net" where
  "searchResourceDeviceLocalDomainAccountCredential e c deviceID domainID accountID typeCred =
     bindA (newRequest c (credentials_path deviceID domainID accountID) http_MethodGet NoBody) (\<lambda>r.
     case resp_err r of Some err \<Rightarrow> failA err | None \<Rightarrow>
     if resp_code r \<noteq> http_StatusOK
     then failA (''api return not OK : '' @ fmt_d (resp_code r) @ '' with body '' @ resp_body r)
     else
     case unmarshalCredentials e (resp_body r) of
       Inl err \<Rightarrow> failA err
     | Inr results \<Rightarrow>
         (case find (\<lambda>v. cred_Type v = typeCred) results of
            Some v \<Rightarrow> returnA (cred_ID v, True)
          | None \<Rightarrow> returnA ([], False)))"

definition prepareDeviceLocalDomainAccountCredentialJSON ::
  "ResourceData \<Rightarrow> bool \<Rightarrow> jsonDeviceLocalDomainAccountCredential result" where
  "prepareDeviceLocalDomainAccountCredentialJSON d newResource =
     bindR (get_string d ''type'') (\<lambda>ty.
     let json = zero_jsonDeviceLocalDomainAccountCredential\<lparr>cred_Type := ty\<rparr> in
     if cred_Type json = ''password''
     then bindR (get_string d ''password'') (\<lambda>pw. Ok (json\<lparr>cred_Password := pw\<rparr>))
     else if cred_Type json = ''ssh_key''
     then bindR (if newResource then Ok True
                 else bindR (get_string d ''private_key'') (\<lambda>k.
                        Ok (\<not> strings_HasPrefix k ''generate:''))) (\<lambda>send.
          if send
          then bindR (get_string d ''private_key'') (\<lambda>k.
               bindR (get_string d ''passphrase'') (\<lambda>ph.
                 Ok (json\<lparr>cred_PrivateKey := k, cred_Passphrase := ph\<rparr>)))
          else Ok json)
     else Ok json)"

definition addDeviceLocalDomainAccountCredential :: "Client \<Rightarrow> unit action" where
  "addDeviceLocalDomainAccountCredential c =
     bindA (reads (\<lambda>d. prepareDeviceLocalDomainAccountCredentialJSON d True)) (\<lambda>json.
     bindA (reads (\<lambda>d. get_string d ''device_id'')) (\<lambda>deviceID.
     bindA (reads (\<lambda>d. get_string d ''domain_id'')) (\<lambda>domainID.
     bindA (reads (\<lambda>d. get_string d ''account_id'')) (\<lambda>accountID.
     bindA (on_net (newRequest c (credentials_path deviceID domainID accountID) http_MethodPost
                      (CredentialBody json))) (\<lambda>r.
     case resp_err r of Some err \<Rightarrow> failA err | None \<Rightarrow>
     if resp_code r \<noteq> http_StatusOK \<and> resp_code r \<noteq> http_StatusNoContent
     then failA (''api return not OK or NoContent : '' @ fmt_d (resp_code r) @ '' with body ''
                 @ resp_body r)
     else returnA ())))))"

definition updateDeviceLocalDomainAccountCredential :: "Client \<Rightarrow> unit action" where
  "updateDeviceLocalDomainAccountCredential c =
     bindA (reads (\<lambda>d. prepareDeviceLocalDomainAccountCredentialJSON d False)) (\<lambda>json.
     bindA (reads (\<lambda>d. get_string d ''device_id'')) (\<lambda>deviceID.
     bindA (reads (\<lambda>d. get_string d ''domain_id'')) (\<lambda>domainID.
     bindA (reads (\<lambda>d. get_string d ''account_id'')) (\<lambda>accountID.
     bindA (reads (\<lambda>d. Ok (rd_id d))) (\<lambda>i.
     bindA (on_net (newRequest c (credentials_path deviceID domainID accountID @ i) http_MethodPut
                      (CredentialBody json))) (\<lambda>r.
     case resp_err r of Some err \<Rightarrow> failA err | None \<Rightarrow>
     if resp_code r \<noteq> http_StatusOK \<and> resp_code r \<noteq> http_StatusNoContent
     then failA (''api return not OK or NoContent : '' @ fmt_d (resp_code r) @ '' with body ''
                 @ resp_body r)
     else returnA ()))))))"

definition deleteDeviceLocalDomainAccountCredential :: "Client \<Rightarrow> unit action" where
  "deleteDeviceLocalDomainAccountCredential c =
     bindA (reads (\<lambda>d. get_string d ''device_id'')) (\<lambda>deviceID.
     bindA (reads (\<lambda>d. get_string d ''domain_id'')) (\<lambda>domainID.
     bindA (reads (\<lambda>d. get_string d ''account_id'')) (\<lambda>accountID.
     bindA (reads (\<lambda>d. Ok (rd_id d))) (\<lambda>i.
     bindA (on_net (newRequest c (credentials_path deviceID domainID accountID @ i) http_MethodDelete
                      NoBody)) (\<lambda>r.
     case resp_err r of Some err \<Rightarrow> failA err | None \<Rightarrow>
     if resp_code r \<noteq> http_StatusOK \<and> resp_code r \<noteq> http_StatusNoContent
     then failA (''api return not OK or NoContent : '' @ fmt_d (resp_code r) @ '' with body ''
                 @ resp_body r)
     else returnA ())))))"

definition readDeviceLocalDomainAccountCredentialOptions ::
  "env \<Rightarrow> Client \<Rightarrow> string \<Rightarrow> string \<Rightarrow> string \<Rightarrow> string
   \<Rightarrow> jsonDeviceLocalDomainAccountCredential net" where
  "readDeviceLocalDomainAccountCredentialOptions e c deviceID localDomainID accountID credentialID =
     bindA (newRequest c (credentials_path deviceID localDomainID accountID @ credentialID)
              http_MethodGet NoBody) (\<lambda>r.
     case resp_err r of Some err \<Rightarrow> failA err | None \<Rightarrow>
     if resp_code r = http_StatusNotFound then returnA zero_jsonDeviceLocalDomainAccountCredential
     else if resp_code r \<noteq> http_StatusOK
     then failA (''api return not OK : '' @ fmt_d (resp_code r) @ '' with body '' @ resp_body r)
     else
     case unmarshalCredential e (resp_body r) of
       Inl err \<Rightarrow> failA err
     | Inr result \<Rightarrow> returnA result)"

definition fillDeviceLocalDomainAccountCredential ::
  "ResourceData \<Rightarrow> jsonDeviceLocalDomainAccountCredential \<Rightarrow> ResourceData result" where
  "fillDeviceLocalDomainAccountCredential d json =
     bindR (set_or_panic d ''type'' (TFString (cred_Type json))) (\<lambda>d.
     set_or_panic d ''public_key'' (TFString (cred_PublicKey json)))"

definition resourceDeviceLocalDomainAccountCredentialRead :: "env \<Rightarrow> Client \<Rightarrow> unit action" where
  "resourceDeviceLocalDomainAccountCredentialRead e c =
     bindA (check (resourveDeviceLocalDomainAccountCredentialVersionCheck e (bastionAPIVersion c))) (\<lambda>_.
     bindA (reads (\<lambda>d. get_string d ''device_id'')) (\<lambda>deviceID.
     bindA (reads (\<lambda>d. get_string d ''domain_id'')) (\<lambda>domainID.
     bindA (reads (\<lambda>d. get_string d ''account_id'')) (\<lambda>accountID.
     bindA (reads (\<lambda>d. Ok (rd_id d))) (\<lambda>i.
     bindA (on_net (readDeviceLocalDomainAccountCredentialOptions e c deviceID domainID accountID i))
       (\<lambda>cfg.
     if cred_ID cfg = []
     then updates (\<lambda>d. Ok (d_SetId d []))
     else updates (\<lambda>d. fillDeviceLocalDomainAccountCredential d cfg)))))))"

definition resourceDeviceLocalDomainAccountCredentialCreate :: "env \<Rightarrow> Client \<Rightarrow> unit action" where
  "resourceDeviceLocalDomainAccountCredentialCreate e c =
     bindA (check (resourveDeviceLocalDomainAccountCredentialVersionCheck e (bastionAPIVersion c))) (\<lambda>_.
     bindA (reads (\<lambda>d. get_string d ''device_id'')) (\<lambda>deviceID.
     bindA (on_net (readDeviceOptions e c deviceID)) (\<lambda>cfgDeviceID.
     if cfgDeviceID = []
     then failA (''device with ID '' @ deviceID @ '' doesn't exists'') else
     bindA (reads (\<lambda>d. get_string d ''domain_id'')) (\<lambda>domainID.
     bindA (on_net (readDeviceLocalDomainOptions e c deviceID domainID)) (\<lambda>cfgDomainID.
     if cfgDomainID = []
     then failA (''domain_id with ID '' @ domainID @ '' on device_id '' @ deviceID
                 @ '' doesn't exists'') else
     bindA (reads (\<lambda>d. get_string d ''account_id'')) (\<lambda>accountID.
     bindA (on_net (readDeviceLocalDomainAccountOptions e c deviceID domainID accountID))
       (\<lambda>cfgAccountID.
     if cfgAccountID = []
     then failA (''account_id with ID '' @ accountID @ '' on domain_id '' @ domainID
                 @ '', device_id '' @ deviceID @ '' doesn't exists'') else
     bindA (reads (\<lambda>d. get_string d ''type'')) (\<lambda>typeCred.
     bindA (on_net (searchResourceDeviceLocalDomainAccountCredential e c
                      deviceID domainID accountID typeCred)) (\<lambda>(_, ex).
     if ex
     then failA (''credential tpye '' @ typeCred @ '' on account_id '' @ accountID
                 @ '', domain_id '' @ domainID @ '', device_id '' @ deviceID @ '' already exists'')
     else
     bindA (addDeviceLocalDomainAccountCredential c) (\<lambda>_.
     bindA (on_net (searchResourceDeviceLocalDomainAccountCredential e c
                      deviceID domainID accountID typeCred)) (\<lambda>(i, ex).
     if \<not> ex
     then failA (''credential tpye '' @ typeCred @ '' on account_id '' @ accountID
                 @ '', domain_id '' @ domainID @ '', device_id '' @ deviceID
                 @ '' can't find after POST'')
     else
     bindA (updates (\<lambda>d. Ok (d_SetId d i))) (\<lambda>_.
     resourceDeviceLocalDomainAccountCredentialRead e c))))))))))))"

definition resourceDeviceLocalDomainAccountCredentialUpdate :: "env \<Rightarrow> Client \<Rightarrow> unit action" where
  "resourceDeviceLocalDomainAccountCredentialUpdate e c =
     bindA (updates (\<lambda>d. Ok (d_Partial d True))) (\<lambda>_.
     bindA (check (resourveDeviceLocalDomainAccountCredentialVersionCheck e (bastionAPIVersion c))) (\<lambda>_.
     bindA (updateDeviceLocalDomainAccountCredential c) (\<lambda>_.
     bindA (updates (\<lambda>d. Ok (d_Partial d False))) (\<lambda>_.
     resourceDeviceLocalDomainAccountCredentialRead e c))))"

definition resourceDeviceLocalDomainAccountCredentialDelete :: "env \<Rightarrow> Client \<Rightarrow> unit action" where
  "resourceDeviceLocalDomainAccountCredentialDelete e c =
     bindA (check (resourveDeviceLocalDomainAccountCredentialVersionCheck e (bastionAPIVersion c))) (\<lambda>_.
     deleteDeviceLocalDomainAccountCredential c)"

definition resourceDeviceLocalDomainAccountCredentialImport ::
  "env \<Rightarrow> Client \<Rightarrow> ResourceData list action" where
  "resourceDeviceLocalDomainAccountCredentialImport e c =
     bindA (check (resourveDeviceLocalDomainAccountCredentialVersionCheck e (bastionAPIVersion c))) (\<lambda>_.
     bindA (reads (\<lambda>d. Ok (rd_id d))) (\<lambda>given.
     case strings_Split given CHR ''/'' of
       [s0, s1, s2, s3] \<Rightarrow>
         bindA (on_net (searchResourceDeviceLocalDomainAccountCredential e c s0 s1 s2 s3)) (\<lambda>(i, ex).
         if \<not> ex
         then failA (''don't find credential with id '' @ given @ '' ''
                     @ ''(id must be <device_id>/<domain_id>/<account_id>/<type>'')
         else
         bindA (on_net (readDeviceLocalDomainAccountCredentialOptions e c s0 s1 s2 i)) (\<lambda>cfg.
         bindA (updates (\<lambda>d. fillDeviceLocalDomainAccountCredential d cfg)) (\<lambda>_.
         bindA (updates (\<lambda>d. Ok (d_SetId d i))) (\<lambda>_.
         bindA (updates (\<lambda>d. set_or_panic d ''device_id'' (TFString s0))) (\<lambda>_.
         bindA (updates (\<lambda>d. set_or_panic d ''domain_id'' (TFString s1))) (\<lambda>_.
         bindA (updates (\<lambda>d. set_or_panic d ''account_id'' (TFString s2))) (\<lambda>_.
         bindA (reads Ok) (\<lambda>d. returnA [d]))))))))
     | _ \<Rightarrow> failA ''id msut be <device_id>/<domain_id>/<account_id>/<type>''))"

section \<open>The LDAP external authentication resource\<close>

definition externalAuthLdapSchema :: "(string \<times> ValueType) list" where
  "externalAuthLdapSchema =
     [(''authentication_name'', TypeString),
      (''cn_attribute'', TypeString),
      (''host'', TypeString),
      (''ldap_base'', TypeString),
      (''login_attribute'', TypeString),
      (''port'', TypeInt),
      (''timeout'', TypeFloat),
      (''ca_certificate'', TypeString),
      (''certificate'', TypeString),
      (''description'', TypeString),
      (''is_active_directory'', TypeBool),
      (''is_anonymous_access'', TypeBool),
      (''is_protected_user'', TypeBool),
      (''is_ssl'', TypeBool),
      (''is_starttls'', TypeBool),
      (''login'', TypeString),
      (''password'', TypeString),
      (''private_key'', TypeString),
      (''use_primary_auth_domain'', TypeBool)]"

definition resourveExternalAuthLdapVersionCheck :: "env \<Rightarrow> string \<Rightarrow> string option" where
  "resourveExternalAuthLdapVersionCheck e version =
     (if version = versionValidate3_3 e then None
      else Some (''resource wallix-bastion_externalauth_ldap not validate with api version ''
                 @ version))"

definition searchResourceExternalAuthLdap :: "env \<Rightarrow> Client \<Rightarrow> string \<Rightarrow> (string \<times> bool) net" where
  "searchResourceExternalAuthLdap e c authenticationName =
     bindA (newRequest c (''/externalauths/'' @ authenticationName) http_MethodGet NoBody) (\<lambda>r.
     case resp_err r of Some err \<Rightarrow> failA err | None \<Rightarrow>
     if resp_code r \<noteq> http_StatusOK
     then failA (''api return not OK : '' @ fmt_d (resp_code r) @ '' with body '' @ resp_body r)
     else
     case unmarshalExternalAuthLdaps e (resp_body r) of
       Inl err \<Rightarrow> failA err
     | Inr results \<Rightarrow>
         (case find (\<lambda>v. ldap_AuthenticationName v = authenticationName) results of
            Some v \<Rightarrow> returnA (ldap_ID v, True)
          | None \<Rightarrow> returnA ([], False)))"

definition prepareExternalAuthLdapJSON :: "ResourceData \<Rightarrow> jsonExternalAuthLdap result" where
  "prepareExternalAuthLdapJSON d =
     bindR (get_bool d ''is_active_directory'') (\<lambda>isActiveDirectory.
     bindR (get_bool d ''is_anonymous_access'') (\<lambda>isAnonymousAccess.
     bindR (get_bool d ''is_protected_user'') (\<lambda>isProtectedUser.
     bindR (get_bool d ''is_ssl'') (\<lambda>isSSL.
     bindR (get_bool d ''is_starttls'') (\<lambda>isStartTLS.
     bindR (get_bool d ''use_primary_auth_domain'') (\<lambda>usePrimaryAuthDomain.
     bindR (as_float64 (d_Get d ''timeout'')) (\<lambda>timeout.
     bindR (get_string d ''authentication_name'') (\<lambda>authenticationName.
     bindR (get_string d ''ca_certificate'') (\<lambda>caCertificate.
     bindR (get_string d ''certificate'') (\<lambda>certificate.
     bindR (get_string d ''cn_attribute'') (\<lambda>cnAttribute.
     bindR (get_string d ''description'') (\<lambda>description.
     bindR (get_string d ''ldap_base'') (\<lambda>ldapBase.
     bindR (get_string d ''login'') (\<lambda>login.
     bindR (get_string d ''login_attribute'') (\<lambda>loginAttribute.
     bindR (get_string d ''host'') (\<lambda>host.
     bindR (get_string d ''password'') (\<lambda>password.
     bindR (as_int (d_Get d ''port'')) (\<lambda>port.
     bindR (get_string d ''private_key'') (\<lambda>privateKey.
       Ok \<lparr>ldap_IsActiveDirectory = isActiveDirectory,
           ldap_IsAnonymousAccess = isAnonymousAccess,
           ldap_IsProtectedUser = isProtectedUser,
           ldap_IsSSL = isSSL,
           ldap_IsStartTLS = isStartTLS,
           ldap_UsePrimaryAuthDomain = usePrimaryAuthDomain,
           ldap_Port = port,
           ldap_Timeout = timeout,
           ldap_ID = [],
           ldap_AuthenticationName = authenticationName,
           ldap_CACertificate = caCertificate,
           ldap_Certificate = certificate,
           ldap_CNAttribute = cnAttribute,
           ldap_Description = description,
           ldap_LDAPBase = ldapBase,
           ldap_Login = login,
           ldap_LoginAttribute = loginAttribute,
           ldap_Host = host,
           ldap_Password = password,
           ldap_PrivateKey = privateKey,
           ldap_Type = ''LDAP''\<rparr>)))))))))))))))))))"

definition addExternalAuthLdap :: "Client \<Rightarrow> unit action" where
  "addExternalAuthLdap c =
     bindA (reads prepareExternalAuthLdapJSON) (\<lambda>json.
     bindA (on_net (newRequest c ''/externalauths/'' http_MethodPost (LdapBody json))) (\<lambda>r.
     case resp_err r of Some err \<Rightarrow> failA err | None \<Rightarrow>
     if resp_code r \<noteq> http_StatusOK \<and> resp_code r \<noteq> http_StatusNoContent
     then failA (''api return not OK or NoContent : '' @ fmt_d (resp_code r) @ '' with body ''
                 @ resp_body r)
     else returnA ()))"

definition updateExternalAuthLdap :: "Client \<Rightarrow> unit action" where
  "updateExternalAuthLdap c =
     bindA (reads prepareExternalAuthLdapJSON) (\<lambda>json.
     bindA (reads (\<lambda>d. Ok (rd_id d))) (\<lambda>i.
     bindA (on_net (newRequest c (''/externalauths/'' @ i) http_MethodPut (LdapBody json))) (\<lambda>r.
     case resp_err r of Some err \<Rightarrow> failA err | None \<Rightarrow>
     if resp_code r \<noteq> http_StatusOK \<and> resp_code r \<noteq> http_StatusNoContent
     then failA (''api return not OK or NoContent : '' @ fmt_d (resp_code r) @ '' with body ''
                 @ resp_body r)
     else returnA ())))"

definition deleteExternalAuthLdap :: "Client \<Rightarrow> unit action" where
  "deleteExternalAuthLdap c =
     bindA (reads (\<lambda>d. Ok (rd_id d))) (\<lambda>i.
     bindA (on_net (newRequest c (''/externalauths/'' @ i) http_MethodDelete NoBody)) (\<lambda>r.
     case resp_err r of Some err \<Rightarrow> failA err | None \<Rightarrow>
     if resp_code r \<noteq> http_StatusOK \<and> resp_code r \<noteq> http_StatusNoContent
     then failA (''api return not OK or NoContent : '' @ fmt_d (resp_code r) @ '' with body ''
                 @ resp_body r)
     else returnA ()))"

definition readExternalAuthLdapOptions :: "env \<Rightarrow> Client \<Rightarrow> string \<Rightarrow> jsonExternalAuthLdap net" where
  "readExternalAuthLdapOptions e c authenticationID =
     bindA (newRequest c (''/externalauths/'' @ authenticationID) http_MethodGet NoBody) (\<lambda>r.
     case resp_err r of Some err \<Rightarrow> failA err | None \<Rightarrow>
     if resp_code r = http_StatusNotFound then returnA zero_jsonExternalAuthLdap
     else if resp_code r \<noteq> http_StatusOK
     then failA (''api return not OK : '' @ fmt_d (resp_code r) @ '' with body '' @ resp_body r)
     else
     case unmarshalExternalAuthLdap e (resp_body r) of
       Inl err \<Rightarrow> failA err
     | Inr result \<Rightarrow> returnA result)"

definition fillExternalAuthLdap :: "ResourceData \<Rightarrow> jsonExternalAuthLdap \<Rightarrow> ResourceData result" where
  "fillExternalAuthLdap d json =
     bindR (set_or_panic d ''cn_attribute'' (TFString (ldap_CNAttribute json))) (\<lambda>d.
     bindR (set_or_panic d ''host'' (TFString (ldap_Host json))) (\<lambda>d.
     bindR (set_or_panic d ''ldap_base'' (TFString (ldap_LDAPBase json))) (\<lambda>d.
     bindR (set_or_panic d ''login'' (TFString (ldap_Login json))) (\<lambda>d.
     bindR (set_or_panic d ''login_attribute'' (TFString (ldap_LoginAttribute json))) (\<lambda>d.
     bindR (set_or_panic d ''port'' (TFInt (ldap_Port json))) (\<lambda>d.
     bindR (set_or_panic d ''timeout'' (TFFloat (ldap_Timeout json))) (\<lambda>d.
     bindR (set_or_panic d ''ca_certificate'' (TFString (ldap_CACertificate json))) (\<lambda>d.
     bindR (set_or_panic d ''certificate'' (TFString (ldap_Certificate json))) (\<lambda>d.
     bindR (set_or_panic d ''description'' (TFString (ldap_Description json))) (\<lambda>d.
     bindR (set_or_panic d ''is_active_directory'' (TFBool (ldap_IsActiveDirectory json))) (\<lambda>d.
     bindR (set_or_panic d ''is_anonymous_access'' (TFBool (ldap_IsAnonymousAccess json))) (\<lambda>d.
     bindR (set_or_panic d ''is_protected_user'' (TFBool (ldap_IsProtectedUser json))) (\<lambda>d.
     bindR (set_or_panic d ''is_ssl'' (TFBool (ldap_IsSSL json))) (\<lambda>d.
     bindR (set_or_panic d ''is_starttls'' (TFBool (ldap_IsStartTLS json))) (\<lambda>d.
     bindR (set_or_panic d ''private_key'' (TFString (ldap_PrivateKey json))) (\<lambda>d.
     set_or_panic d ''use_primary_auth_domain'' (TFBool (ldap_UsePrimaryAuthDomain json))
     ))))))))))))))))"

text \<open>
  The guard \<open>!anonymous && (login == "" || password == "")\<close> of Create and Update, with
  Go's short-circuit evaluation of the three \<open>d.Get\<close> assertions.
\<close>

definition ldap_missing_login :: "ResourceData \<Rightarrow> bool result" where
  "ldap_missing_login d =
     bindR (get_bool d ''is_anonymous_access'') (\<lambda>anonymous.
     if anonymous then Ok False else
     bindR (get_string d ''login'') (\<lambda>login.
     if login = [] then Ok True else
     bindR (get_string d ''password'') (\<lambda>password. Ok (password = []))))"

definition resourceExternalAuthLdapRead :: "env \<Rightarrow> Client \<Rightarrow> unit action" where
  "resourceExternalAuthLdapRead e c =
     bindA (check (resourveExternalAuthLdapVersionCheck e (bastionAPIVersion c))) (\<lambda>_.
     bindA (reads (\<lambda>d. Ok (rd_id d))) (\<lambda>i.
     bindA (on_net (readExternalAuthLdapOptions e c i)) (\<lambda>config.
     if ldap_ID config = []
     then updates (\<lambda>d. Ok (d_SetId d []))
     else updates (\<lambda>d. fillExternalAuthLdap d config))))"

definition resourceExternalAuthLdapCreate :: "env \<Rightarrow> Client \<Rightarrow> unit action" where
  "resourceExternalAuthLdapCreate e c =
     bindA (check (resourveExternalAuthLdapVersionCheck e (bastionAPIVersion c))) (\<lambda>_.
     bindA (reads (\<lambda>d. get_string d ''authentication_name'')) (\<lambda>name.
     bindA (on_net (searchResourceExternalAuthLdap e c name)) (\<lambda>(_, ex).
     if ex then failA (''authentication_name '' @ name @ '' already exists'') else
     bindA (reads ldap_missing_login) (\<lambda>missing.
     if missing
     then failA (''missing 'login' and/or 'password' on '' @ ''externalauth_ldap '' @ name) else
     bindA (addExternalAuthLdap c) (\<lambda>_.
     bindA (on_net (searchResourceExternalAuthLdap e c name)) (\<lambda>(i, ex).
     if \<not> ex then failA (''authentication_name '' @ name @ '' can't find after POST'') else
     bindA (updates (\<lambda>d. Ok (d_SetId d i))) (\<lambda>_.
     resourceExternalAuthLdapRead e c)))))))"

definition resourceExternalAuthLdapUpdate :: "env \<Rightarrow> Client \<Rightarrow> unit action" where
  "resourceExternalAuthLdapUpdate e c =
     bindA (check (resourveExternalAuthLdapVersionCheck e (bastionAPIVersion c))) (\<lambda>_.
     bindA (reads ldap_missing_login) (\<lambda>missing.
     if missing
     then bindA (reads (\<lambda>d. get_string d ''authentication_name'')) (\<lambda>name.
            failA (''missing 'login' and/or 'password' on '' @ ''externalauth_ldap '' @ name))
     else
     bindA (updateExternalAuthLdap c) (\<lambda>_.
     resourceExternalAuthLdapRead e c)))"

definition resourceExternalAuthLdapDelete :: "env \<Rightarrow> Client \<Rightarrow> unit action" where
  "resourceExternalAuthLdapDelete e c =
     bindA (check (resourveExternalAuthLdapVersionCheck e (bastionAPIVersion c))) (\<lambda>_.
     deleteExternalAuthLdap c)"

definition resourceExternalAuthLdapImport :: "env \<Rightarrow> Client \<Rightarrow> ResourceData list action" where
  "resourceExternalAuthLdapImport e c =
     bindA (check (resourveExternalAuthLdapVersionCheck e (bastionAPIVersion c))) (\<lambda>_.
     bindA (reads (\<lambda>d. Ok (rd_id d))) (\<lambda>given.
     bindA (on_net (searchResourceExternalAuthLdap e c given)) (\<lambda>(i, ex).
     if \<not> ex
     then failA (''don't find authentication_name with id '' @ given
                 @ '' (id must be <authentication_name>'')
     else
     bindA (on_net (readExternalAuthLdapOptions e c i)) (\<lambda>config.
     bindA (updates (\<lambda>d. fillExternalAuthLdap d config)) (\<lambda>_.
     bindA (updates (\<lambda>d. Ok (d_SetId d i))) (\<lambda>_.
     bindA (reads Ok) (\<lambda>d. returnA [d])))))))"

section \<open>The local password policy data source\<close>

text \<open>
  \<open>password_policy_name\<close> is optional with the default \<open>"default"\<close>, which the SDK writes
  into the data before \<open>ReadContext\<close> runs when the configuration leaves the field out.
\<close>

definition localpasswordpolicySchema :: "(string \<times> ValueType) list" where
  "localpasswordpolicySchema =
     [(''password_policy_name'', TypeString),
      (''allow_same_user_and_password'', TypeBool),
      (''forbidden_passwords'', TypeSet),
      (''last_passwords_to_reject'', TypeInt),
      (''max_auth_failures'', TypeInt),
      (''password_expiration'', TypeInt),
      (''password_min_digit_chars'', TypeInt),
      (''password_min_length'', TypeInt),
      (''password_min_lower_chars'', TypeInt),
      (''password_min_special_chars'', TypeInt),
      (''password_min_upper_chars'', TypeInt),
      (''password_warning_days'', TypeInt),
      (''ssh_key_algos_allowed'', TypeSet),
      (''ssh_rsa_min_length'', TypeInt)]"

text \<open>\<open>bchk.InSlice(version, defaultVersionsValid())\<close> is membership in the table.\<close>

definition dataSourceLocalpasswordpolicyVersionCheck :: "env \<Rightarrow> string \<Rightarrow> string option" where
  "dataSourceLocalpasswordpolicyVersionCheck e version =
     (if version \<in> set (defaultVersionsValid e) then None
      else Some (''data source wallix-bastion_localpasswordpolicy not available with api version ''
                 @ version))"

definition readLocalpasswordpolicyOptions :: "env \<Rightarrow> Client \<Rightarrow> string \<Rightarrow> jsonLocalpasswordpolicy net" where
  "readLocalpasswordpolicyOptions e c passwordPolicyName =
     bindA (newRequest c (''/localpasswordpolicies/?q=password_policy_name='' @ passwordPolicyName)
              http_MethodGet NoBody) (\<lambda>r.
     case resp_err r of Some err \<Rightarrow> failA err | None \<Rightarrow>
     if resp_code r \<noteq> http_StatusOK
     then failA (''api doesn't return OK: '' @ fmt_d (resp_code r) @ '' with body:''
                 @ [CHR 0x0A] @ resp_body r)
     else
     case unmarshalLocalpasswordpolicies e (resp_body r) of
       Inl err \<Rightarrow> failA (''unmarshaling json: '' @ err)
     | Inr results \<Rightarrow>
         (case results of
            [] \<Rightarrow> failA (''password_policy_name '' @ passwordPolicyName @ '' not found'')
          | first # _ \<Rightarrow> returnA first))"

definition fillLocalpasswordpolicy :: "ResourceData \<Rightarrow> jsonLocalpasswordpolicy \<Rightarrow> ResourceData result" where
  "fillLocalpasswordpolicy d jsonData =
     bindR (set_or_panic d ''allow_same_user_and_password''
              (TFBool (lpp_AllowSameUserAndPassword jsonData))) (\<lambda>d.
     bindR (set_or_panic d ''password_expiration'' (TFInt (lpp_PasswordExpiration jsonData))) (\<lambda>d.
     bindR (set_or_panic d ''password_warning_days'' (TFInt (lpp_PasswordWarningDays jsonData))) (\<lambda>d.
     bindR (set_or_panic d ''password_min_length'' (TFInt (lpp_PasswordMinLength jsonData))) (\<lambda>d.
     bindR (set_or_panic d ''password_min_lower_chars''
              (TFInt (lpp_PasswordMinLowerChars jsonData))) (\<lambda>d.
     bindR (set_or_panic d ''password_min_upper_chars''
              (TFInt (lpp_PasswordMinUpperChars jsonData))) (\<lambda>d.
     bindR (set_or_panic d ''password_min_digit_chars''
              (TFInt (lpp_PasswordMinDigitChars jsonData))) (\<lambda>d.
     bindR (set_or_panic d ''password_min_special_chars''
              (TFInt (lpp_PasswordMinSpecialChars jsonData))) (\<lambda>d.
     bindR (set_or_panic d ''last_passwords_to_reject''
              (TFInt (lpp_LastPasswordsToReject jsonData))) (\<lambda>d.
     bindR (set_or_panic d ''max_auth_failures'' (TFInt (lpp_MaxAuthFailures jsonData))) (\<lambda>d.
     bindR (set_or_panic d ''ssh_rsa_min_length'' (TFInt (lpp_SSHRsaMinLength jsonData))) (\<lambda>d.
     bindR (set_or_panic d ''forbidden_passwords''
              (TFList (map TFString (go_range (lpp_ForbiddenPasswords jsonData))))) (\<lambda>d.
     set_or_panic d ''ssh_key_algos_allowed''
       (TFList (map TFString (go_range (lpp_SSHKeyAlgosAllowed jsonData))))
     ))))))))))))"

definition dataSourceLocalpasswordpolicyRead :: "env \<Rightarrow> Client \<Rightarrow> unit action" where
  "dataSourceLocalpasswordpolicyRead e c =
     bindA (check (dataSourceLocalpasswordpolicyVersionCheck e (bastionAPIVersion c))) (\<lambda>_.
     bindA (reads (\<lambda>d. get_string d ''password_policy_name'')) (\<lambda>name.
     bindA (on_net (readLocalpasswordpolicyOptions e c name)) (\<lambda>cfg.
     bindA (updates (\<lambda>d. fillLocalpasswordpolicy d cfg)) (\<lambda>_.
     updates (\<lambda>d. Ok (d_SetId d (lpp_ID cfg)))))))"

section \<open>Requests, stub appliances and example states\<close>

definition get_request :: "string \<Rightarrow> request" where
  "get_request path = \<lparr>req_path = path, req_method = http_MethodGet, req_body = NoBody\<rparr>"

text \<open>A transport stub that gives every request the same answer.\<close>

definition answer_all :: "string \<Rightarrow> int \<Rightarrow> request list \<Rightarrow> request \<Rightarrow> response" where
  "answer_all body code l r = \<lparr>resp_body = body, resp_code = code, resp_err = None\<rparr>"

text \<open>A transport stub that accepts every POST with 204 and gives \<open>body\<close> to everything else.\<close>

definition accept_post :: "string \<Rightarrow> request list \<Rightarrow> request \<Rightarrow> response" where
  "accept_post body l r =
     (if req_method r = http_MethodPost
      then \<lparr>resp_body = [], resp_code = http_StatusNoContent, resp_err = None\<rparr>
      else \<lparr>resp_body = body, resp_code = http_StatusOK, resp_err = None\<rparr>)"

definition listed_application :: jsonApplication where
  "listed_application = zero_jsonApplication\<lparr>app_ID := ''42'', app_ApplicationName := ''app1''\<rparr>"

definition listed_credential :: jsonDeviceLocalDomainAccountCredential where
  "listed_credential =
     zero_jsonDeviceLocalDomainAccountCredential\<lparr>cred_ID := ''7'', cred_Type := ''ssh_key'',
       cred_PublicKey := ''ssh-rsa AAAA''\<rparr>"

definition listed_ldap :: jsonExternalAuthLdap where
  "listed_ldap =
     zero_jsonExternalAuthLdap\<lparr>ldap_ID := ''9'', ldap_AuthenticationName := ''ldap1'',
       ldap_Host := ''ldap.example.com'', ldap_Port := 636, ldap_Type := ''LDAP''\<rparr>"

definition listed_policy :: jsonLocalpasswordpolicy where
  "listed_policy =
     \<lparr>lpp_AllowSameUserAndPassword = False, lpp_ID = ''3'', lpp_PasswordPolicyName = ''strict'',
      lpp_PasswordExpiration = 90, lpp_PasswordWarningDays = 7, lpp_PasswordMinLength = 12,
      lpp_PasswordMinLowerChars = 1, lpp_PasswordMinUpperChars = 1, lpp_PasswordMinDigitChars = 1,
      lpp_PasswordMinSpecialChars = 1, lpp_LastPasswordsToReject = 4, lpp_MaxAuthFailures = 5,
      lpp_SSHRsaMinLength = 2048, lpp_ForbiddenPasswords = None, lpp_SSHKeyAlgosAllowed = None\<rparr>"

text \<open>
  A stub of the parameters: each decoder knows the body \<open>[]\<close>, the body \<open>[one]\<close> (a list
  holding the listed record) and the body \<open>one\<close> (the listed record), and refuses any other;
  each parent of a credential exists and is read with one GET.
\<close>

definition stub_env :: env where
  "stub_env =
     \<lparr>versionValidate3_3 = ''v3.3'',
      defaultVersionsValid = [''v3.3'', ''v3.6''],
      marshalPluginParameters = (\<lambda>p. ''{}''),
      unmarshalApplications = (\<lambda>b. if b = ''[]'' then Inr [] else if b = ''[one]''
         then Inr [listed_application] else Inl ''unexpected end of JSON input''),
      unmarshalApplication = (\<lambda>b. if b = ''one''
         then Inr listed_application else Inl ''unexpected end of JSON input''),
      unmarshalCredentials = (\<lambda>b. if b = ''[]'' then Inr [] else if b = ''[one]''
         then Inr [listed_credential] else Inl ''unexpected end of JSON input''),
      unmarshalCredential = (\<lambda>b. if b = ''one''
         then Inr listed_credential else Inl ''unexpected end of JSON input''),
      unmarshalExternalAuthLdaps = (\<lambda>b. if b = ''[]'' then Inr [] else if b = ''[one]''
         then Inr [listed_ldap] else Inl ''unexpected end of JSON input''),
      unmarshalExternalAuthLdap = (\<lambda>b. if b = ''one''
         then Inr listed_ldap else Inl ''unexpected end of JSON input''),
      unmarshalLocalpasswordpolicies = (\<lambda>b. if b = ''[]'' then Inr [] else if b = ''[one]''
         then Inr [listed_policy] else Inl ''unexpected end of JSON input''),
      readDeviceOptions = (\<lambda>c deviceID l. (Ok deviceID, l @ [get_request (''/devices/'' @ deviceID)])),
      readDeviceLocalDomainOptions = (\<lambda>c deviceID domainID l.
         (Ok domainID, l @ [get_request (''/devices/'' @ deviceID @ ''/localdomains/'' @ domainID)])),
      readDeviceLocalDomainAccountOptions = (\<lambda>c deviceID domainID accountID l.
         (Ok accountID, l @ [get_request (''/devices/'' @ deviceID @ ''/localdomains/'' @ domainID
                                          @ ''/accounts/'' @ accountID)]))\<rparr>"

definition example_application :: ResourceData where
  "example_application =
     \<lparr>rd_schema = applicationSchema,
      rd_attrs = [''application_name'' \<mapsto> TFString ''app1'',
                  ''connection_policy'' \<mapsto> TFString ''RDP'',
                  ''paths'' \<mapsto> TFSet [TFMap [(''target'', TFString ''srv1''),
                                            (''program'', TFString ''calc.exe''),
                                            (''working_dir'', TFString [])]],
                  ''target'' \<mapsto> TFString ''cluster1'',
                  ''global_domains'' \<mapsto> TFSet [TFString ''dom1'']],
      rd_id = [], rd_partial = False\<rparr>"

definition example_application_no_domains :: ResourceData where
  "example_application_no_domains =
     example_application\<lparr>rd_attrs := (rd_attrs example_application)(''global_domains'' := None)\<rparr>"

definition example_credential :: ResourceData where
  "example_credential =
     \<lparr>rd_schema = credentialSchema,
      rd_attrs = [''device_id'' \<mapsto> TFString ''dev1'',
                  ''domain_id'' \<mapsto> TFString ''dom2'',
                  ''account_id'' \<mapsto> TFString ''acc3'',
                  ''type'' \<mapsto> TFString ''ssh_key'',
                  ''private_key'' \<mapsto> TFString ''KEY'',
                  ''passphrase'' \<mapsto> TFString ''hunter2''],
      rd_id = ''7'', rd_partial = False\<rparr>"

definition example_ldap :: ResourceData where
  "example_ldap =
     \<lparr>rd_schema = externalAuthLdapSchema,
      rd_attrs = [''authentication_name'' \<mapsto> TFString ''ldap1'',
                  ''cn_attribute'' \<mapsto> TFString ''cn'',
                  ''host'' \<mapsto> TFString ''ldap.example.com'',
                  ''ldap_base'' \<mapsto> TFString ''dc=example,dc=com'',
                  ''login_attribute'' \<mapsto> TFString ''uid'',
                  ''port'' \<mapsto> TFInt 636,
                  ''timeout'' \<mapsto> TFFloat 10,
                  ''login'' \<mapsto> TFString ''admin'',
                  ''password'' \<mapsto> TFString ''hunter2'',
                  ''private_key'' \<mapsto> TFString ''KEY''],
      rd_id = ''9'', rd_partial = False\<rparr>"

text \<open>The value of a key after a step that may have panicked or failed.\<close>

definition result_Get :: "ResourceData result \<Rightarrow> string \<Rightarrow> tfvalue result" where
  "result_Get r k = bindR r (\<lambda>d. Ok (d_Get d k))"

text \<open>
  Two predicates used to state results: an action leaves the stored value of a key as it
  was, whatever its outcome; an action run in a world is refused with a message before any
  request is made.
\<close>

definition keeps :: "string \<Rightarrow> 'a action \<Rightarrow> bool" where
  "keeps k m = (\<forall>w. rd_attrs (rdata (snd (m w))) k = rd_attrs (rdata w) k)"

definition refused_before_io :: "'a action \<Rightarrow> world \<Rightarrow> string \<Rightarrow> bool" where
  "refused_before_io m w msg = (fst (m w) = Err msg \<and> requests (snd (m w)) = requests w)"

section \<open>Sequencing lemmas\<close>

lemma bindR_OkE:
  assumes "bindR m f = Ok y"
  obtains x where "m = Ok x" and "f x = Ok y"
  using assms by (cases m) (simp_all add: bindR_def)

lemma bindR_ErrE:
  assumes "bindR m f = Err e"
  obtains "m = Err e" | x where "m = Ok x" and "f x = Err e"
  using assms by (cases m) (simp_all add: bindR_def)

lemma bindA_Ok: "m s = (Ok x, s') \<Longrightarrow> bindA m f s = f x s'"
  by (simp add: bindA_def)

lemma bindA_check_Some: "bindA (check (Some err)) f s = (Err err, s)"
  by (simp add: bindA_def check_def)

lemma bindA_check_None: "bindA (check None) f s = f () s"
  by (simp add: bindA_def check_def)

lemma bindA_updates_Ok:
  "bindA (updates (\<lambda>d. Ok (g d))) f w = f () (w\<lparr>rdata := g (rdata w)\<rparr>)"
  by (simp add: bindA_def updates_def)

lemma bindA_reads:
  "bindA (reads g) f w =
     (case g (rdata w) of Panic p \<Rightarrow> (Panic p, w) | Err x \<Rightarrow> (Err x, w) | Ok x \<Rightarrow> f x w)"
  by (simp add: bindA_def reads_def split: result.splits)

lemma bindA_on_net:
  "bindA (on_net m) f w =
     (case m (requests w) of
        (Panic p, l) \<Rightarrow> (Panic p, w\<lparr>requests := l\<rparr>)
      | (Err x, l) \<Rightarrow> (Err x, w\<lparr>requests := l\<rparr>)
      | (Ok x, l) \<Rightarrow> f x (w\<lparr>requests := l\<rparr>))"
  by (simp add: bindA_def on_net_def split: prod.splits result.splits)

lemma convert_value_same_kind:
  "convert_value ty (TFString s) = Some v' \<Longrightarrow> v' = TFString s"
  "convert_value ty (TFBool b) = Some v' \<Longrightarrow> v' = TFBool b"
  "convert_value ty (TFInt i) = Some v' \<Longrightarrow> v' = TFInt i"
  "convert_value ty (TFFloat r) = Some v' \<Longrightarrow> v' = TFFloat r"
  by (cases ty; simp)+

lemma set_or_panic_OkE:
  assumes "set_or_panic d k v = Ok d'"
  obtains ty v' where "map_of (rd_schema d) k = Some ty" and "convert_value ty v = Some v'"
    and "d' = d\<lparr>rd_attrs := (rd_attrs d)(k \<mapsto> v')\<rparr>"
  using assms
  by (auto simp: set_or_panic_def d_Set_def split: option.splits sum.splits)

lemma set_or_panic_fits:
  assumes "map_of (rd_schema d) k = Some ty" and "convert_value ty v = Some v'"
  shows "set_or_panic d k v = Ok (d\<lparr>rd_attrs := (rd_attrs d)(k \<mapsto> v')\<rparr>)"
  using assms by (simp add: set_or_panic_def d_Set_def)

section \<open>The application codec\<close>

lemma assertions_no_error [simp]:
  "as_string v \<noteq> Err e" "as_Set v \<noteq> Err e" "as_slice v \<noteq> Err e" "as_map v \<noteq> Err e"
  "get_string d k \<noteq> Err e"
  by (simp_all add: as_string_def as_Set_def as_slice_def as_map_def get_string_def
      split: tfvalue.splits)

lemma prepare_domains_no_error [simp]: "prepare_domains acc vs \<noteq> Err e"
proof (induction vs arbitrary: acc)
  case Nil
  show ?case by simp
next
  case (Cons v vs)
  show ?case
  proof
    assume "prepare_domains acc (v # vs) = Err e"
    then show False
      using Cons.IH by (auto elim!: bindR_ErrE)
  qed
qed

lemma prepare_paths_no_error [simp]: "prepare_paths acc vs \<noteq> Err e"
proof (induction vs arbitrary: acc)
  case Nil
  show ?case by simp
next
  case (Cons v vs)
  show ?case
  proof
    assume "prepare_paths acc (v # vs) = Err e"
    then show False
      using Cons.IH by (auto elim!: bindR_ErrE)
  qed
qed

lemma prepareApplicationJSON_no_error: "prepareApplicationJSON d \<noteq> Err e"
proof
  assume "prepareApplicationJSON d = Err e"
  then show False
    unfolding prepareApplicationJSON_def
    by (elim bindR_ErrE) (auto elim!: bindR_ErrE split: if_splits)
qed

lemma get_string_OkD: "get_string d k = Ok s \<Longrightarrow> d_Get d k = TFString s"
  by (auto simp: get_string_def as_string_def split: tfvalue.splits)

text \<open>
  Whenever \<open>prepareApplicationJSON\<close> returns at all, the set \<open>global_domains\<close> was empty
  and the record carries the explicit empty sequence: on a non-empty set the assertion
  \<open>d.Get("global_domains").([]interface{})\<close> meets a \<open>*schema.Set\<close>.
\<close>

lemma prepareApplicationJSON_returns_only_without_domains:
  assumes "prepareApplicationJSON d = Ok j"
  shows "d_Get d ''global_domains'' = TFSet []" and "app_GlobalDomains j = Some []"
proof -
  from assms obtain domList domains
    where s: "as_Set (d_Get d ''global_domains'') = Ok domList"
      and b: "(if length domList > 0
               then bindR (as_slice (d_Get d ''global_domains'')) (prepare_domains None)
               else Ok (Some [])) = Ok domains"
      and j: "app_GlobalDomains j = domains"
    unfolding prepareApplicationJSON_def by (elim bindR_OkE) auto
  from s have g: "d_Get d ''global_domains'' = TFSet domList"
    by (auto simp: as_Set_def split: tfvalue.splits)
  have e: "domList = []"
  proof (rule ccontr)
    assume "domList \<noteq> []"
    with b g show False by (simp add: as_slice_def bindR_def)
  qed
  from g e show "d_Get d ''global_domains'' = TFSet []" by simp
  from b e j show "app_GlobalDomains j = Some []" by simp
qed

lemma prepareApplicationJSON_nonempty_domains:
  assumes "d_Get d ''global_domains'' = TFSet (x # xs)"
  shows "\<exists>p. prepareApplicationJSON d = Panic p"
proof (cases "prepareApplicationJSON d")
  case (Panic p)
  then show ?thesis by simp
next
  case (Err m)
  with prepareApplicationJSON_no_error show ?thesis by simp
next
  case (Ok j)
  from prepareApplicationJSON_returns_only_without_domains(1)[OF Ok] assms show ?thesis by simp
qed

lemma prepareApplicationJSON_copies_strings:
  assumes "prepareApplicationJSON d = Ok j"
  shows "d_Get d ''application_name'' = TFString (app_ApplicationName j)"
    and "d_Get d ''connection_policy'' = TFString (app_ConnectionPolicy j)"
    and "d_Get d ''description'' = TFString (app_Description j)"
    and "d_Get d ''parameters'' = TFString (app_Parameters j)"
    and "d_Get d ''target'' = TFString (app_Target j)"
    and "app_LocalDomains j = None"
proof -
  from assms obtain name policy descr params target where
    "get_string d ''application_name'' = Ok name" "app_ApplicationName j = name"
    "get_string d ''connection_policy'' = Ok policy" "app_ConnectionPolicy j = policy"
    "get_string d ''description'' = Ok descr" "app_Description j = descr"
    "get_string d ''parameters'' = Ok params" "app_Parameters j = params"
    "get_string d ''target'' = Ok target" "app_Target j = target"
    "app_LocalDomains j = None"
    unfolding prepareApplicationJSON_def by (elim bindR_OkE) auto
  then show "d_Get d ''application_name'' = TFString (app_ApplicationName j)"
    and "d_Get d ''connection_policy'' = TFString (app_ConnectionPolicy j)"
    and "d_Get d ''description'' = TFString (app_Description j)"
    and "d_Get d ''parameters'' = TFString (app_Parameters j)"
    and "d_Get d ''target'' = TFString (app_Target j)"
    and "app_LocalDomains j = None"
    by (simp_all add: get_string_OkD)
qed

lemma fillApplication_nil_local_domains:
  assumes "rd_schema d = applicationSchema" and "app_LocalDomains jsonData = None"
  shows "fillApplication marshal d jsonData = Panic NilDereference"
  using assms
  by (simp add: fillApplication_def set_or_panic_def d_Set_def applicationSchema_def bindR_def)

lemma fillApplication_with_local_domains:
  assumes "rd_schema d = applicationSchema" and "app_LocalDomains jsonData = Some lds"
  shows "\<exists>d'. fillApplication marshal d jsonData = Ok d'"
  using assms
  by (simp add: fillApplication_def set_or_panic_def d_Set_def applicationSchema_def bindR_def)

text \<open>
  Where both directions return, the strings and the (then empty) \<open>global_domains\<close> come
  back: the encoder returned a record, and the decoder is given that record with some
  \<open>local_domains\<close> list in it, as a response of the appliance carries one.
\<close>

lemma application_roundtrip_when_both_return:
  assumes s: "rd_schema d = applicationSchema"
    and p: "prepareApplicationJSON d = Ok j"
    and f: "fillApplication marshal d (j\<lparr>app_LocalDomains := Some lds\<rparr>) = Ok d'"
  shows "d_Get d' ''application_name'' = d_Get d ''application_name''"
    and "d_Get d' ''connection_policy'' = d_Get d ''connection_policy''"
    and "d_Get d' ''target'' = d_Get d ''target''"
    and "d_Get d' ''description'' = d_Get d ''description''"
    and "d_Get d' ''parameters'' = d_Get d ''parameters''"
    and "d_Get d' ''global_domains'' = d_Get d ''global_domains''"
proof -
  note c = prepareApplicationJSON_copies_strings[OF p]
    prepareApplicationJSON_returns_only_without_domains[OF p]
  from f s have d': "rd_schema d' = applicationSchema
      \<and> rd_attrs d' ''application_name'' = Some (TFString (app_ApplicationName j))
      \<and> rd_attrs d' ''connection_policy'' = Some (TFString (app_ConnectionPolicy j))
      \<and> rd_attrs d' ''target'' = Some (TFString (app_Target j))
      \<and> rd_attrs d' ''description'' = Some (TFString (app_Description j))
      \<and> rd_attrs d' ''parameters'' = Some (TFString (app_Parameters j))
      \<and> rd_attrs d' ''global_domains'' = Some (TFSet (remdups (map TFString (go_range (app_GlobalDomains j)))))"
    unfolding fillApplication_def
    by (elim bindR_OkE set_or_panic_OkE) (simp add: applicationSchema_def)
  with c show "d_Get d' ''application_name'' = d_Get d ''application_name''"
    and "d_Get d' ''connection_policy'' = d_Get d ''connection_policy''"
    and "d_Get d' ''target'' = d_Get d ''target''"
    and "d_Get d' ''description'' = d_Get d ''description''"
    and "d_Get d' ''parameters'' = d_Get d ''parameters''"
    and "d_Get d' ''global_domains'' = d_Get d ''global_domains''"
    by (simp_all add: d_Get_def applicationSchema_def go_range_def)
qed

lemma prepare_example_no_domains:
  "prepareApplicationJSON example_application_no_domains =
     Ok \<lparr>app_ID = [], app_ApplicationName = ''app1'', app_ConnectionPolicy = ''RDP'',
         app_Description = [], app_Parameters = [], app_Target = ''cluster1'',
         app_GlobalDomains = Some [],
         app_Paths = Some [\<lparr>path_Target = ''srv1'', path_Program = ''calc.exe'',
                             path_WorkingDir = []\<rparr>],
         app_LocalDomains = None\<rparr>"
  by (simp add: prepareApplicationJSON_def get_string_def as_string_def as_Set_def as_slice_def
      bindR_def as_map_def map_index_def go_append_def d_Get_def example_application_no_domains_def
      example_application_def applicationSchema_def)

lemma prepare_example:
  "prepareApplicationJSON example_application = Panic (TypeAssertion ''[]interface {}'')"
  by (simp add: prepareApplicationJSON_def get_string_def as_string_def as_Set_def as_slice_def
      bindR_def as_map_def map_index_def go_append_def d_Get_def example_application_def
      applicationSchema_def)

text \<open>
  C4. Encode of the application resource copies every settable field; an unset or empty
  \<open>global_domains\<close> is sent as an explicit empty sequence, and a non-empty one is copied
  element by element. Evaluated on the state whose \<open>global_domains\<close> is the set holding
  \<open>dom1\<close>: the encoder panics on the type assertion of its inner loop and no record is
  produced.
\<close>

theorem prepareApplicationJSON_global_domains_panics:
  "d_Get example_application ''global_domains'' = TFSet [TFString ''dom1'']
   \<and> prepareApplicationJSON example_application = Panic (TypeAssertion ''[]interface {}'')
   \<and> bindR (prepareApplicationJSON example_application_no_domains) (\<lambda>j. Ok (app_GlobalDomains j))
       = Ok (Some [])"
  by (simp add: prepare_example prepare_example_no_domains bindR_def)
    (simp add: d_Get_def example_application_def applicationSchema_def)

text \<open>
  C9. Decode of the application resource completes on every well-formed response, also on
  one without \<open>local_domains\<close>. Evaluated on the record of application 42 decoded from
  a response that leaves \<open>local_domains\<close> out: \<open>fillApplication\<close> dereferences the nil
  pointer and panics.
\<close>

theorem fillApplication_absent_local_domains_panics:
  "app_LocalDomains listed_application = None
   \<and> fillApplication (marshalPluginParameters stub_env) example_application listed_application
       = Panic NilDereference"
  using fillApplication_nil_local_domains
          [of example_application listed_application "marshalPluginParameters stub_env"]
  by (simp add: listed_application_def zero_jsonApplication_def example_application_def)

text \<open>
  C1. Codec round trip of the application resource: decoding the encoded record gives back
  every declared field. Evaluated on two valid states: with a non-empty \<open>global_domains\<close>
  the encoder panics, and with an empty one the decoder panics on the record the encoder
  produced, whose \<open>local_domains\<close> is nil; neither run gives back a state.
\<close>

theorem application_roundtrip_panics:
  "bindR (prepareApplicationJSON example_application)
     (fillApplication (marshalPluginParameters stub_env) example_application)
     = Panic (TypeAssertion ''[]interface {}'')
   \<and> bindR (prepareApplicationJSON example_application_no_domains)
       (fillApplication (marshalPluginParameters stub_env) example_application_no_domains)
     = Panic NilDereference"
proof
  show "bindR (prepareApplicationJSON example_application)
          (fillApplication (marshalPluginParameters stub_env) example_application)
        = Panic (TypeAssertion ''[]interface {}'')"
    by (simp add: prepare_example bindR_def)
  have "rd_schema example_application_no_domains = applicationSchema"
    by (simp add: example_application_no_domains_def example_application_def)
  then show "bindR (prepareApplicationJSON example_application_no_domains)
               (fillApplication (marshalPluginParameters stub_env) example_application_no_domains)
             = Panic NilDereference"
    unfolding prepare_example_no_domains
    by (simp add: bindR_def fillApplication_nil_local_domains)
qed

section \<open>What each query sends and returns\<close>

lemma searchResourceApplication_eq:
  "searchResourceApplication e c name l =
     (let r = transport c l (get_request ''/applications/?fields=application_name,id&limit=-1'') in
      (case resp_err r of Some err \<Rightarrow> Err err | None \<Rightarrow>
       if resp_code r \<noteq> 200
       then Err (''api doesn't return OK : '' @ fmt_d (resp_code r) @ '' with body :''
                 @ [CHR 0x0A] @ resp_body r)
       else (case unmarshalApplications e (resp_body r) of
               Inl err \<Rightarrow> Err (''json.Unmarshal failed : '' @ err)
             | Inr results \<Rightarrow>
                 (case find (\<lambda>v. app_ApplicationName v = name) results of
                    Some v \<Rightarrow> Ok (app_ID v, True) | None \<Rightarrow> Ok ([], False))),
       l @ [get_request ''/applications/?fields=application_name,id&limit=-1'']))"
  by (simp add: searchResourceApplication_def bindA_def newRequest_def get_request_def Let_def
      failA_def returnA_def split: option.splits sum.splits)

lemma readApplicationOptions_eq:
  "readApplicationOptions e c i l =
     (let r = transport c l (get_request (''/applications/'' @ i)) in
      (case resp_err r of Some err \<Rightarrow> Err err | None \<Rightarrow>
       if resp_code r = 404 then Ok zero_jsonApplication
       else if resp_code r \<noteq> 200
       then Err (''api doesn't return OK : '' @ fmt_d (resp_code r) @ '' with body :''
                 @ [CHR 0x0A] @ resp_body r)
       else (case unmarshalApplication e (resp_body r) of
               Inl err \<Rightarrow> Err (''json.Unmarshal failed : '' @ err) | Inr result \<Rightarrow> Ok result),
       l @ [get_request (''/applications/'' @ i)]))"
  by (simp add: readApplicationOptions_def bindA_def newRequest_def get_request_def Let_def
      failA_def returnA_def split: option.splits sum.splits)

lemma searchResourceDeviceLocalDomainAccountCredential_eq:
  "searchResourceDeviceLocalDomainAccountCredential e c dv dm ac ty l =
     (let r = transport c l (get_request (credentials_path dv dm ac)) in
      (case resp_err r of Some err \<Rightarrow> Err err | None \<Rightarrow>
       if resp_code r \<noteq> 200
       then Err (''api return not OK : '' @ fmt_d (resp_code r) @ '' with body '' @ resp_body r)
       else (case unmarshalCredentials e (resp_body r) of
               Inl err \<Rightarrow> Err err
             | Inr results \<Rightarrow>
                 (case find (\<lambda>v. cred_Type v = ty) results of
                    Some v \<Rightarrow> Ok (cred_ID v, True) | None \<Rightarrow> Ok ([], False))),
       l @ [get_request (credentials_path dv dm ac)]))"
  by (simp add: searchResourceDeviceLocalDomainAccountCredential_def bindA_def newRequest_def
      get_request_def Let_def failA_def returnA_def split: option.splits sum.splits)

lemma readDeviceLocalDomainAccountCredentialOptions_eq:
  "readDeviceLocalDomainAccountCredentialOptions e c dv dm ac i l =
     (let r = transport c l (get_request (credentials_path dv dm ac @ i)) in
      (case resp_err r of Some err \<Rightarrow> Err err | None \<Rightarrow>
       if resp_code r = 404 then Ok zero_jsonDeviceLocalDomainAccountCredential
       else if resp_code r \<noteq> 200
       then Err (''api return not OK : '' @ fmt_d (resp_code r) @ '' with body '' @ resp_body r)
       else (case unmarshalCredential e (resp_body r) of
               Inl err \<Rightarrow> Err err | Inr result \<Rightarrow> Ok result),
       l @ [get_request (credentials_path dv dm ac @ i)]))"
  by (simp add: readDeviceLocalDomainAccountCredentialOptions_def bindA_def newRequest_def
      get_request_def Let_def failA_def returnA_def split: option.splits sum.splits)

lemma searchResourceExternalAuthLdap_eq:
  "searchResourceExternalAuthLdap e c name l =
     (let r = transport c l (get_request (''/externalauths/'' @ name)) in
      (case resp_err r of Some err \<Rightarrow> Err err | None \<Rightarrow>
       if resp_code r \<noteq> 200
       then Err (''api return not OK : '' @ fmt_d (resp_code r) @ '' with body '' @ resp_body r)
       else (case unmarshalExternalAuthLdaps e (resp_body r) of
               Inl err \<Rightarrow> Err err
             | Inr results \<Rightarrow>
                 (case find (\<lambda>v. ldap_AuthenticationName v = name) results of
                    Some v \<Rightarrow> Ok (ldap_ID v, True) | None \<Rightarrow> Ok ([], False))),
       l @ [get_request (''/externalauths/'' @ name)]))"
  by (simp add: searchResourceExternalAuthLdap_def bindA_def newRequest_def
      get_request_def Let_def failA_def returnA_def split: option.splits sum.splits)

lemma readExternalAuthLdapOptions_eq:
  "readExternalAuthLdapOptions e c i l =
     (let r = transport c l (get_request (''/externalauths/'' @ i)) in
      (case resp_err r of Some err \<Rightarrow> Err err | None \<Rightarrow>
       if resp_code r = 404 then Ok zero_jsonExternalAuthLdap
       else if resp_code r \<noteq> 200
       then Err (''api return not OK : '' @ fmt_d (resp_code r) @ '' with body '' @ resp_body r)
       else (case unmarshalExternalAuthLdap e (resp_body r) of
               Inl err \<Rightarrow> Err err | Inr result \<Rightarrow> Ok result),
       l @ [get_request (''/externalauths/'' @ i)]))"
  by (simp add: readExternalAuthLdapOptions_def bindA_def newRequest_def get_request_def Let_def
      failA_def returnA_def split: option.splits sum.splits)

lemma readLocalpasswordpolicyOptions_eq:
  "readLocalpasswordpolicyOptions e c name l =
     (let r = transport c l (get_request (''/localpasswordpolicies/?q=password_policy_name='' @ name)) in
      (case resp_err r of Some err \<Rightarrow> Err err | None \<Rightarrow>
       if resp_code r \<noteq> 200
       then Err (''api doesn't return OK: '' @ fmt_d (resp_code r) @ '' with body:''
                 @ [CHR 0x0A] @ resp_body r)
       else (case unmarshalLocalpasswordpolicies e (resp_body r) of
               Inl err \<Rightarrow> Err (''unmarshaling json: '' @ err)
             | Inr results \<Rightarrow>
                 (case results of
                    [] \<Rightarrow> Err (''password_policy_name '' @ name @ '' not found'')
                  | first # rest \<Rightarrow> Ok first)),
       l @ [get_request (''/localpasswordpolicies/?q=password_policy_name='' @ name)]))"
  by (simp add: readLocalpasswordpolicyOptions_def bindA_def newRequest_def get_request_def Let_def
      failA_def returnA_def split: option.splits sum.splits list.splits)

section \<open>The version gate\<close>

lemma gate_application:
  assumes "bastionAPIVersion c \<noteq> versionValidate3_3 e"
  shows "resourceApplicationCreate e c w =
           (Err (''resource wallix-bastion_application not validate with api version ''
                 @ bastionAPIVersion c), w)"
    and "resourceApplicationRead e c w =
           (Err (''resource wallix-bastion_application not validate with api version ''
                 @ bastionAPIVersion c), w)"
    and "resourceApplicationUpdate e c w =
           (Err (''resource wallix-bastion_application not validate with api version ''
                 @ bastionAPIVersion c), w\<lparr>rdata := d_Partial (rdata w) True\<rparr>)"
    and "resourceApplicationDelete e c w =
           (Err (''resource wallix-bastion_application not validate with api version ''
                 @ bastionAPIVersion c), w)"
    and "resourceApplicationImport e c w =
           (Err (''resource wallix-bastion_application not validate with api version ''
                 @ bastionAPIVersion c), w)"
  using assms
  by (simp_all add: resourceApplicationCreate_def resourceApplicationRead_def
      resourceApplicationUpdate_def resourceApplicationDelete_def resourceApplicationImport_def
      resourceApplicationVersionCheck_def bindA_check_Some bindA_updates_Ok)

lemma gate_credential:
  assumes "bastionAPIVersion c \<noteq> versionValidate3_3 e"
  shows "resourceDeviceLocalDomainAccountCredentialCreate e c w =
           (Err (''resource wallix-bastion_device_localdomain not validate with api version ''
                 @ bastionAPIVersion c), w)"
    and "resourceDeviceLocalDomainAccountCredentialRead e c w =
           (Err (''resource wallix-bastion_device_localdomain not validate with api version ''
                 @ bastionAPIVersion c), w)"
    and "resourceDeviceLocalDomainAccountCredentialUpdate e c w =
           (Err (''resource wallix-bastion_device_localdomain not validate with api version ''
                 @ bastionAPIVersion c), w\<lparr>rdata := d_Partial (rdata w) True\<rparr>)"
    and "resourceDeviceLocalDomainAccountCredentialDelete e c w =
           (Err (''resource wallix-bastion_device_localdomain not validate with api version ''
                 @ bastionAPIVersion c), w)"
    and "resourceDeviceLocalDomainAccountCredentialImport e c w =
           (Err (''resource wallix-bastion_device_localdomain not validate with api version ''
                 @ bastionAPIVersion c), w)"
  using assms
  by (simp_all add: resourceDeviceLocalDomainAccountCredentialCreate_def
      resourceDeviceLocalDomainAccountCredentialRead_def
      resourceDeviceLocalDomainAccountCredentialUpdate_def
      resourceDeviceLocalDomainAccountCredentialDelete_def
      resourceDeviceLocalDomainAccountCredentialImport_def
      resourveDeviceLocalDomainAccountCredentialVersionCheck_def bindA_check_Some bindA_updates_Ok)

lemma gate_externalauth_ldap:
  assumes "bastionAPIVersion c \<noteq> versionValidate3_3 e"
  shows "resourceExternalAuthLdapCreate e c w =
           (Err (''resource wallix-bastion_externalauth_ldap not validate with api version ''
                 @ bastionAPIVersion c), w)"
    and "resourceExternalAuthLdapRead e c w =
           (Err (''resource wallix-bastion_externalauth_ldap not validate with api version ''
                 @ bastionAPIVersion c), w)"
    and "resourceExternalAuthLdapUpdate e c w =
           (Err (''resource wallix-bastion_externalauth_ldap not validate with api version ''
                 @ bastionAPIVersion c), w)"
    and "resourceExternalAuthLdapDelete e c w =
           (Err (''resource wallix-bastion_externalauth_ldap not validate with api version ''
                 @ bastionAPIVersion c), w)"
    and "resourceExternalAuthLdapImport e c w =
           (Err (''resource wallix-bastion_externalauth_ldap not validate with api version ''
                 @ bastionAPIVersion c), w)"
  using assms
  by (simp_all add: resourceExternalAuthLdapCreate_def resourceExternalAuthLdapRead_def
      resourceExternalAuthLdapUpdate_def resourceExternalAuthLdapDelete_def
      resourceExternalAuthLdapImport_def resourveExternalAuthLdapVersionCheck_def
      bindA_check_Some)

lemma gate_localpasswordpolicy:
  assumes "bastionAPIVersion c \<notin> set (defaultVersionsValid e)"
  shows "dataSourceLocalpasswordpolicyRead e c w =
           (Err (''data source wallix-bastion_localpasswordpolicy not available with api version ''
                 @ bastionAPIVersion c), w)"
  using assms
  by (simp add: dataSourceLocalpasswordpolicyRead_def dataSourceLocalpasswordpolicyVersionCheck_def
      bindA_check_Some)

text \<open>
  The gate holds on every entry point: with a version outside the accepted set, each of
  the sixteen operations returns its version error and the record of requests is as it was.
\<close>

lemma version_gate_precedes_io:
  "(bastionAPIVersion c \<noteq> versionValidate3_3 e \<longrightarrow>
      refused_before_io (resourceApplicationCreate e c) w
        (''resource wallix-bastion_application not validate with api version '' @ bastionAPIVersion c)
    \<and> refused_before_io (resourceApplicationRead e c) w
        (''resource wallix-bastion_application not validate with api version '' @ bastionAPIVersion c)
    \<and> refused_before_io (resourceApplicationUpdate e c) w
        (''resource wallix-bastion_application not validate with api version '' @ bastionAPIVersion c)
    \<and> refused_before_io (resourceApplicationDelete e c) w
        (''resource wallix-bastion_application not validate with api version '' @ bastionAPIVersion c)
    \<and> refused_before_io (resourceApplicationImport e c) w
        (''resource wallix-bastion_application not validate with api version '' @ bastionAPIVersion c)
    \<and> refused_before_io (resourceDeviceLocalDomainAccountCredentialCreate e c) w
        (''resource wallix-bastion_device_localdomain not validate with api version ''
         @ bastionAPIVersion c)
    \<and> refused_before_io (resourceDeviceLocalDomainAccountCredentialRead e c) w
        (''resource wallix-bastion_device_localdomain not validate with api version ''
         @ bastionAPIVersion c)
    \<and> refused_before_io (resourceDeviceLocalDomainAccountCredentialUpdate e c) w
        (''resource wallix-bastion_device_localdomain not validate with api version ''
         @ bastionAPIVersion c)
    \<and> refused_before_io (resourceDeviceLocalDomainAccountCredentialDelete e c) w
        (''resource wallix-bastion_device_localdomain not validate with api version ''
         @ bastionAPIVersion c)
    \<and> refused_before_io (resourceDeviceLocalDomainAccountCredentialImport e c) w
        (''resource wallix-bastion_device_localdomain not validate with api version ''
         @ bastionAPIVersion c)
    \<and> refused_before_io (resourceExternalAuthLdapCreate e c) w
        (''resource wallix-bastion_externalauth_ldap not validate with api version ''
         @ bastionAPIVersion c)
    \<and> refused_before_io (resourceExternalAuthLdapRead e c) w
        (''resource wallix-bastion_externalauth_ldap not validate with api version ''
         @ bastionAPIVersion c)
    \<and> refused_before_io (resourceExternalAuthLdapUpdate e c) w
        (''resource wallix-bastion_externalauth_ldap not validate with api version ''
         @ bastionAPIVersion c)
    \<and> refused_before_io (resourceExternalAuthLdapDelete e c) w
        (''resource wallix-bastion_externalauth_ldap not validate with api version ''
         @ bastionAPIVersion c)
    \<and> refused_before_io (resourceExternalAuthLdapImport e c) w
        (''resource wallix-bastion_externalauth_ldap not validate with api version ''
         @ bastionAPIVersion c))
   \<and> (bastionAPIVersion c \<notin> set (defaultVersionsValid e) \<longrightarrow>
      refused_before_io (dataSourceLocalpasswordpolicyRead e c) w
        (''data source wallix-bastion_localpasswordpolicy not available with api version ''
         @ bastionAPIVersion c))"
  by (simp add: refused_before_io_def gate_application gate_credential gate_externalauth_ldap
      gate_localpasswordpolicy)

text \<open>
  C2. Version gating precedes all I/O: with a version outside the accepted set every
  operation returns an error naming the resource and the version, and no request is made.
  Evaluated on Read of the device local-domain account credential with the version
  \<open>v3.2\<close>: no request is made, and the error carries the version, but the resource it
  names is \<open>wallix-bastion_device_localdomain\<close>, the text of another resource's check.
\<close>

theorem credential_version_error_names_device_localdomain:
  "resourceDeviceLocalDomainAccountCredentialRead stub_env
     \<lparr>bastionAPIVersion = ''v3.2'', transport = answer_all ''one'' 200\<rparr>
     \<lparr>rdata = example_credential, requests = []\<rparr>
   = (Err ''resource wallix-bastion_device_localdomain not validate with api version v3.2'',
      \<lparr>rdata = example_credential, requests = []\<rparr>)"
  using gate_credential(2)
          [of "\<lparr>bastionAPIVersion = ''v3.2'', transport = answer_all ''one'' 200\<rparr>" stub_env
              "\<lparr>rdata = example_credential, requests = []\<rparr>"]
  by (simp add: stub_env_def)

section \<open>Read\<close>

lemma read_application_status:
  assumes v: "bastionAPIVersion c = versionValidate3_3 e"
    and r: "r = transport c (requests w) (get_request (''/applications/'' @ rd_id (rdata w)))"
    and ok: "resp_err r = None"
  shows "resp_code r = 404 \<Longrightarrow>
           resourceApplicationRead e c w =
             (Ok (), \<lparr>rdata = d_SetId (rdata w) [],
                      requests = requests w @ [get_request (''/applications/'' @ rd_id (rdata w))]\<rparr>)"
    and "resp_code r \<noteq> 200 \<Longrightarrow> resp_code r \<noteq> 404 \<Longrightarrow>
           fst (resourceApplicationRead e c w) =
             Err (''api doesn't return OK : '' @ fmt_d (resp_code r) @ '' with body :''
                  @ [CHR 0x0A] @ resp_body r)"
  using v r ok
  by (simp_all add: resourceApplicationRead_def resourceApplicationVersionCheck_def bindA_check_None
      bindA_reads bindA_on_net readApplicationOptions_eq Let_def zero_jsonApplication_def updates_def)

lemma read_credential_status:
  assumes v: "bastionAPIVersion c = versionValidate3_3 e"
    and g: "get_string (rdata w) ''device_id'' = Ok dv" "get_string (rdata w) ''domain_id'' = Ok dm"
      "get_string (rdata w) ''account_id'' = Ok ac"
    and r: "r = transport c (requests w) (get_request (credentials_path dv dm ac @ rd_id (rdata w)))"
    and ok: "resp_err r = None"
  shows "resp_code r = 404 \<Longrightarrow>
           resourceDeviceLocalDomainAccountCredentialRead e c w =
             (Ok (), \<lparr>rdata = d_SetId (rdata w) [],
                      requests = requests w
                        @ [get_request (credentials_path dv dm ac @ rd_id (rdata w))]\<rparr>)"
    and "resp_code r \<noteq> 200 \<Longrightarrow> resp_code r \<noteq> 404 \<Longrightarrow>
           fst (resourceDeviceLocalDomainAccountCredentialRead e c w) =
             Err (''api return not OK : '' @ fmt_d (resp_code r) @ '' with body '' @ resp_body r)"
  using v g r ok
  by (simp_all add: resourceDeviceLocalDomainAccountCredentialRead_def
      resourveDeviceLocalDomainAccountCredentialVersionCheck_def bindA_check_None
      bindA_reads bindA_on_net readDeviceLocalDomainAccountCredentialOptions_eq Let_def
      zero_jsonDeviceLocalDomainAccountCredential_def updates_def)

lemma read_externalauth_ldap_status:
  assumes v: "bastionAPIVersion c = versionValidate3_3 e"
    and r: "r = transport c (requests w) (get_request (''/externalauths/'' @ rd_id (rdata w)))"
    and ok: "resp_err r = None"
  shows "resp_code r = 404 \<Longrightarrow>
           resourceExternalAuthLdapRead e c w =
             (Ok (), \<lparr>rdata = d_SetId (rdata w) [],
                      requests = requests w @ [get_request (''/externalauths/'' @ rd_id (rdata w))]\<rparr>)"
    and "resp_code r \<noteq> 200 \<Longrightarrow> resp_code r \<noteq> 404 \<Longrightarrow>
           fst (resourceExternalAuthLdapRead e c w) =
             Err (''api return not OK : '' @ fmt_d (resp_code r) @ '' with body '' @ resp_body r)"
  using v r ok
  by (simp_all add: resourceExternalAuthLdapRead_def resourveExternalAuthLdapVersionCheck_def
      bindA_check_None bindA_reads bindA_on_net readExternalAuthLdapOptions_eq Let_def
      zero_jsonExternalAuthLdap_def updates_def)

text \<open>
  C7. Read maps not-found to absent without error: when the version is accepted and the
  GET by id answers 404 with no transport error, Read of each of the three resources returns
  no error, clears the stored id and has made that one request; when it answers a status
  other than 200 and 404, Read returns an error carrying the status code and the raw body.
\<close>

theorem read_not_found_clears_id:
  "(bastionAPIVersion c = versionValidate3_3 e
    \<and> r = transport c (requests w) (get_request (''/applications/'' @ rd_id (rdata w)))
    \<and> resp_err r = None \<longrightarrow>
      (resp_code r = 404 \<longrightarrow>
         resourceApplicationRead e c w =
           (Ok (), \<lparr>rdata = d_SetId (rdata w) [],
                    requests = requests w @ [get_request (''/applications/'' @ rd_id (rdata w))]\<rparr>))
    \<and> (resp_code r \<noteq> 200 \<and> resp_code r \<noteq> 404 \<longrightarrow>
         fst (resourceApplicationRead e c w) =
           Err (''api doesn't return OK : '' @ fmt_d (resp_code r) @ '' with body :''
                @ [CHR 0x0A] @ resp_body r)))
   \<and> (bastionAPIVersion c' = versionValidate3_3 e
      \<and> get_string (rdata w') ''device_id'' = Ok dv \<and> get_string (rdata w') ''domain_id'' = Ok dm
      \<and> get_string (rdata w') ''account_id'' = Ok ac
      \<and> r' = transport c' (requests w') (get_request (credentials_path dv dm ac @ rd_id (rdata w')))
      \<and> resp_err r' = None \<longrightarrow>
      (resp_code r' = 404 \<longrightarrow>
         resourceDeviceLocalDomainAccountCredentialRead e c' w' =
           (Ok (), \<lparr>rdata = d_SetId (rdata w') [],
                    requests = requests w'
                      @ [get_request (credentials_path dv dm ac @ rd_id (rdata w'))]\<rparr>))
    \<and> (resp_code r' \<noteq> 200 \<and> resp_code r' \<noteq> 404 \<longrightarrow>
         fst (resourceDeviceLocalDomainAccountCredentialRead e c' w') =
           Err (''api return not OK : '' @ fmt_d (resp_code r') @ '' with body '' @ resp_body r')))
   \<and> (bastionAPIVersion c'' = versionValidate3_3 e
      \<and> r'' = transport c'' (requests w'') (get_request (''/externalauths/'' @ rd_id (rdata w'')))
      \<and> resp_err r'' = None \<longrightarrow>
      (resp_code r'' = 404 \<longrightarrow>
         resourceExternalAuthLdapRead e c'' w'' =
           (Ok (), \<lparr>rdata = d_SetId (rdata w'') [],
                    requests = requests w''
                      @ [get_request (''/externalauths/'' @ rd_id (rdata w''))]\<rparr>))
    \<and> (resp_code r'' \<noteq> 200 \<and> resp_code r'' \<noteq> 404 \<longrightarrow>
         fst (resourceExternalAuthLdapRead e c'' w'') =
           Err (''api return not OK : '' @ fmt_d (resp_code r'') @ '' with body ''
                @ resp_body r'')))"
  using read_application_status[of c e r w] read_credential_status[of c' e w' dv dm ac r']
    read_externalauth_ldap_status[of c'' e r'' w'']
  by blast

text \<open>
  The three Reads against a stub that answers 404 to everything, and against one that
  answers 500 with the body \<open>boom\<close>.
\<close>

theorem read_not_found_clears_id_witness:
  "resourceApplicationRead stub_env \<lparr>bastionAPIVersion = ''v3.3'', transport = answer_all [] 404\<rparr>
     \<lparr>rdata = example_application\<lparr>rd_id := ''42''\<rparr>, requests = []\<rparr>
     = (Ok (), \<lparr>rdata = example_application\<lparr>rd_id := []\<rparr>,
                requests = [get_request ''/applications/42'']\<rparr>)
   \<and> fst (resourceApplicationRead stub_env
            \<lparr>bastionAPIVersion = ''v3.3'', transport = answer_all ''boom'' 500\<rparr>
            \<lparr>rdata = example_application\<lparr>rd_id := ''42''\<rparr>, requests = []\<rparr>)
     = Err (''api doesn't return OK : 500 with body :'' @ [CHR 0x0A] @ ''boom'')
   \<and> resourceDeviceLocalDomainAccountCredentialRead stub_env
       \<lparr>bastionAPIVersion = ''v3.3'', transport = answer_all [] 404\<rparr>
       \<lparr>rdata = example_credential, requests = []\<rparr>
     = (Ok (), \<lparr>rdata = example_credential\<lparr>rd_id := []\<rparr>,
                requests = [get_request
                  ''/devices/dev1/localdomains/dom2/accounts/acc3/credentials/7'']\<rparr>)
   \<and> fst (resourceDeviceLocalDomainAccountCredentialRead stub_env
            \<lparr>bastionAPIVersion = ''v3.3'', transport = answer_all ''boom'' 500\<rparr>
            \<lparr>rdata = example_credential, requests = []\<rparr>)
     = Err ''api return not OK : 500 with body boom''
   \<and> resourceExternalAuthLdapRead stub_env
       \<lparr>bastionAPIVersion = ''v3.3'', transport = answer_all [] 404\<rparr>
       \<lparr>rdata = example_ldap, requests = []\<rparr>
     = (Ok (), \<lparr>rdata = example_ldap\<lparr>rd_id := []\<rparr>,
                requests = [get_request ''/externalauths/9'']\<rparr>)
   \<and> fst (resourceExternalAuthLdapRead stub_env
            \<lparr>bastionAPIVersion = ''v3.3'', transport = answer_all ''boom'' 500\<rparr>
            \<lparr>rdata = example_ldap, requests = []\<rparr>)
     = Err ''api return not OK : 500 with body boom''"
proof -
  have s: "get_string example_credential ''device_id'' = Ok ''dev1''"
    "get_string example_credential ''domain_id'' = Ok ''dom2''"
    "get_string example_credential ''account_id'' = Ok ''acc3''"
    by (simp_all add: get_string_def as_string_def d_Get_def example_credential_def
        credentialSchema_def)
  have i: "rd_id example_credential = ''7''" "rd_id example_ldap = ''9''"
    by (simp_all add: example_credential_def example_ldap_def)
  have v: "versionValidate3_3 stub_env = ''v3.3''"
    by (simp add: stub_env_def)
  show ?thesis
    using read_not_found_clears_id
      [where e = stub_env
         and c = "\<lparr>bastionAPIVersion = ''v3.3'', transport = answer_all [] 404\<rparr>"
         and w = "\<lparr>rdata = example_application\<lparr>rd_id := ''42''\<rparr>, requests = []\<rparr>"
         and r = "\<lparr>resp_body = [], resp_code = 404, resp_err = None\<rparr>"
         and c' = "\<lparr>bastionAPIVersion = ''v3.3'', transport = answer_all [] 404\<rparr>"
         and w' = "\<lparr>rdata = example_credential, requests = []\<rparr>"
         and dv = "''dev1''" and dm = "''dom2''" and ac = "''acc3''"
         and r' = "\<lparr>resp_body = [], resp_code = 404, resp_err = None\<rparr>"
         and c'' = "\<lparr>bastionAPIVersion = ''v3.3'', transport = answer_all [] 404\<rparr>"
         and w'' = "\<lparr>rdata = example_ldap, requests = []\<rparr>"
         and r'' = "\<lparr>resp_body = [], resp_code = 404, resp_err = None\<rparr>"]
      read_not_found_clears_id
      [where e = stub_env
         and c = "\<lparr>bastionAPIVersion = ''v3.3'', transport = answer_all ''boom'' 500\<rparr>"
         and w = "\<lparr>rdata = example_application\<lparr>rd_id := ''42''\<rparr>, requests = []\<rparr>"
         and r = "\<lparr>resp_body = ''boom'', resp_code = 500, resp_err = None\<rparr>"
         and c' = "\<lparr>bastionAPIVersion = ''v3.3'', transport = answer_all ''boom'' 500\<rparr>"
         and w' = "\<lparr>rdata = example_credential, requests = []\<rparr>"
         and dv = "''dev1''" and dm = "''dom2''" and ac = "''acc3''"
         and r' = "\<lparr>resp_body = ''boom'', resp_code = 500, resp_err = None\<rparr>"
         and c'' = "\<lparr>bastionAPIVersion = ''v3.3'', transport = answer_all ''boom'' 500\<rparr>"
         and w'' = "\<lparr>rdata = example_ldap, requests = []\<rparr>"
         and r'' = "\<lparr>resp_body = ''boom'', resp_code = 500, resp_err = None\<rparr>"]
    by (simp add: s i v answer_all_def d_SetId_def credentials_path_def fmt_d_def digits_of.simps)
qed

section \<open>Create\<close>

lemma addApplication_rdata: "rdata (snd (addApplication c w)) = rdata w"
  by (auto simp: addApplication_def bindA_reads bindA_on_net newRequest_def Let_def failA_def
      returnA_def split: result.splits option.splits if_splits)

lemma addDeviceLocalDomainAccountCredential_rdata:
  "rdata (snd (addDeviceLocalDomainAccountCredential c w)) = rdata w"
  by (auto simp: addDeviceLocalDomainAccountCredential_def bindA_reads bindA_on_net newRequest_def
      Let_def failA_def returnA_def split: result.splits option.splits if_splits)

lemma addExternalAuthLdap_rdata: "rdata (snd (addExternalAuthLdap c w)) = rdata w"
  by (auto simp: addExternalAuthLdap_def bindA_reads bindA_on_net newRequest_def Let_def failA_def
      returnA_def split: result.splits option.splits if_splits)

lemma bindA_fst_Ok: "fst (m s) = Ok x \<Longrightarrow> bindA m f s = f x (snd (m s))"
  by (cases "m s") (simp add: bindA_def)

lemma application_create_duplicate:
  assumes "bastionAPIVersion c = versionValidate3_3 e"
    and "get_string (rdata w) ''application_name'' = Ok name"
    and "fst (searchResourceApplication e c name (requests w)) = Ok (i, True)"
  shows "resourceApplicationCreate e c w =
           (Err (''application_name '' @ name @ '' already exists''),
            w\<lparr>requests := requests w
                 @ [get_request ''/applications/?fields=application_name,id&limit=-1'']\<rparr>)"
proof -
  have "searchResourceApplication e c name (requests w) =
          (Ok (i, True), requests w
             @ [get_request ''/applications/?fields=application_name,id&limit=-1''])"
    using assms(3) by (simp add: searchResourceApplication_eq Let_def)
  then show ?thesis
    using assms(1,2)
    by (simp add: resourceApplicationCreate_def resourceApplicationVersionCheck_def
        bindA_check_None bindA_reads bindA_on_net failA_def)
qed

lemma credential_create_duplicate:
  assumes "bastionAPIVersion c = versionValidate3_3 e"
    and "get_string (rdata w) ''device_id'' = Ok dv" "get_string (rdata w) ''domain_id'' = Ok dm"
      "get_string (rdata w) ''account_id'' = Ok ac" "get_string (rdata w) ''type'' = Ok ty"
    and "readDeviceOptions e c dv (requests w) = (Ok dvID, l1)" "dvID \<noteq> []"
    and "readDeviceLocalDomainOptions e c dv dm l1 = (Ok dmID, l2)" "dmID \<noteq> []"
    and "readDeviceLocalDomainAccountOptions e c dv dm ac l2 = (Ok acID, l3)" "acID \<noteq> []"
    and "fst (searchResourceDeviceLocalDomainAccountCredential e c dv dm ac ty l3) = Ok (i, True)"
  shows "resourceDeviceLocalDomainAccountCredentialCreate e c w =
           (Err (''credential tpye '' @ ty @ '' on account_id '' @ ac @ '', domain_id '' @ dm
                 @ '', device_id '' @ dv @ '' already exists''),
            w\<lparr>requests := l3 @ [get_request (credentials_path dv dm ac)]\<rparr>)"
proof -
  have "searchResourceDeviceLocalDomainAccountCredential e c dv dm ac ty l3 =
          (Ok (i, True), l3 @ [get_request (credentials_path dv dm ac)])"
    using assms(12) by (simp add: searchResourceDeviceLocalDomainAccountCredential_eq Let_def)
  then show ?thesis
    using assms(1-11)
    by (simp add: resourceDeviceLocalDomainAccountCredentialCreate_def
        resourveDeviceLocalDomainAccountCredentialVersionCheck_def
        bindA_check_None bindA_reads bindA_on_net failA_def)
qed

lemma externalauth_ldap_create_duplicate:
  assumes "bastionAPIVersion c = versionValidate3_3 e"
    and "get_string (rdata w) ''authentication_name'' = Ok name"
    and "fst (searchResourceExternalAuthLdap e c name (requests w)) = Ok (i, True)"
  shows "resourceExternalAuthLdapCreate e c w =
           (Err (''authentication_name '' @ name @ '' already exists''),
            w\<lparr>requests := requests w @ [get_request (''/externalauths/'' @ name)]\<rparr>)"
proof -
  have "searchResourceExternalAuthLdap e c name (requests w) =
          (Ok (i, True), requests w @ [get_request (''/externalauths/'' @ name)])"
    using assms(3) by (simp add: searchResourceExternalAuthLdap_eq Let_def)
  then show ?thesis
    using assms(1,2)
    by (simp add: resourceExternalAuthLdapCreate_def resourveExternalAuthLdapVersionCheck_def
        bindA_check_None bindA_reads bindA_on_net failA_def)
qed

lemma application_create_lost:
  fixes e c w name
  defines "w1 \<equiv> w\<lparr>requests := requests w
                      @ [get_request ''/applications/?fields=application_name,id&limit=-1'']\<rparr>"
  assumes "bastionAPIVersion c = versionValidate3_3 e"
    and "get_string (rdata w) ''application_name'' = Ok name"
    and "fst (searchResourceApplication e c name (requests w)) = Ok (i0, False)"
    and "fst (addApplication c w1) = Ok ()"
    and "fst (searchResourceApplication e c name (requests (snd (addApplication c w1))))
           = Ok (i, False)"
  shows "fst (resourceApplicationCreate e c w)
           = Err (''application_name '' @ name @ '' can't find after POST'')"
    and "rdata (snd (resourceApplicationCreate e c w)) = rdata w"
proof -
  have s1: "searchResourceApplication e c name (requests w) = (Ok (i0, False), requests w1)"
    using assms(4) by (simp add: searchResourceApplication_eq Let_def w1_def)
  obtain l3 where s2: "searchResourceApplication e c name (requests (snd (addApplication c w1)))
                         = (Ok (i, False), l3)"
    using assms(6) by (cases "searchResourceApplication e c name (requests (snd (addApplication c w1)))") simp
  have w1': "w\<lparr>requests := requests w1\<rparr> = w1" and d1: "rdata w1 = rdata w"
    by (simp_all add: w1_def)
  have "resourceApplicationCreate e c w =
          (Err (''application_name '' @ name @ '' can't find after POST''),
           (snd (addApplication c w1))\<lparr>requests := l3\<rparr>)"
    using assms(2,3) s1 s2 d1
    by (simp add: resourceApplicationCreate_def resourceApplicationVersionCheck_def
        bindA_check_None bindA_reads bindA_on_net failA_def w1'
        bindA_fst_Ok[where m = "addApplication c", OF assms(5)] addApplication_rdata)
  then show "fst (resourceApplicationCreate e c w)
               = Err (''application_name '' @ name @ '' can't find after POST'')"
    and "rdata (snd (resourceApplicationCreate e c w)) = rdata w"
    by (simp_all add: addApplication_rdata w1_def)
qed


lemma credential_create_lost:
  fixes e c w dv dm ac ty l3
  defines "w4 \<equiv> w\<lparr>requests := l3 @ [get_request (credentials_path dv dm ac)]\<rparr>"
  assumes "bastionAPIVersion c = versionValidate3_3 e"
    and "get_string (rdata w) ''device_id'' = Ok dv" "get_string (rdata w) ''domain_id'' = Ok dm"
      "get_string (rdata w) ''account_id'' = Ok ac" "get_string (rdata w) ''type'' = Ok ty"
    and "readDeviceOptions e c dv (requests w) = (Ok dvID, l1)" "dvID \<noteq> []"
    and "readDeviceLocalDomainOptions e c dv dm l1 = (Ok dmID, l2)" "dmID \<noteq> []"
    and "readDeviceLocalDomainAccountOptions e c dv dm ac l2 = (Ok acID, l3)" "acID \<noteq> []"
    and "fst (searchResourceDeviceLocalDomainAccountCredential e c dv dm ac ty l3) = Ok (i0, False)"
    and "fst (addDeviceLocalDomainAccountCredential c w4) = Ok ()"
    and "fst (searchResourceDeviceLocalDomainAccountCredential e c dv dm ac ty
                (requests (snd (addDeviceLocalDomainAccountCredential c w4)))) = Ok (i, False)"
  shows "fst (resourceDeviceLocalDomainAccountCredentialCreate e c w)
           = Err (''credential tpye '' @ ty @ '' on account_id '' @ ac @ '', domain_id '' @ dm
                  @ '', device_id '' @ dv @ '' can't find after POST'')"
    and "rdata (snd (resourceDeviceLocalDomainAccountCredentialCreate e c w)) = rdata w"
proof -
  have s1: "searchResourceDeviceLocalDomainAccountCredential e c dv dm ac ty l3
              = (Ok (i0, False), requests w4)"
    using assms(13) by (simp add: searchResourceDeviceLocalDomainAccountCredential_eq Let_def w4_def)
  obtain l6 where s2: "searchResourceDeviceLocalDomainAccountCredential e c dv dm ac ty
                         (requests (snd (addDeviceLocalDomainAccountCredential c w4)))
                         = (Ok (i, False), l6)"
    using assms(15)
    by (cases "searchResourceDeviceLocalDomainAccountCredential e c dv dm ac ty
                 (requests (snd (addDeviceLocalDomainAccountCredential c w4)))") simp
  have w4': "w\<lparr>requests := requests w4\<rparr> = w4" and d4: "rdata w4 = rdata w"
    by (simp_all add: w4_def)
  have "resourceDeviceLocalDomainAccountCredentialCreate e c w =
          (Err (''credential tpye '' @ ty @ '' on account_id '' @ ac @ '', domain_id '' @ dm
                @ '', device_id '' @ dv @ '' can't find after POST''),
           (snd (addDeviceLocalDomainAccountCredential c w4))\<lparr>requests := l6\<rparr>)"
    using assms(2-12) s1 s2 d4
    by (simp add: resourceDeviceLocalDomainAccountCredentialCreate_def
        resourveDeviceLocalDomainAccountCredentialVersionCheck_def
        bindA_check_None bindA_reads bindA_on_net failA_def w4'
        bindA_fst_Ok[where m = "addDeviceLocalDomainAccountCredential c", OF assms(14)])
  then show "fst (resourceDeviceLocalDomainAccountCredentialCreate e c w)
           = Err (''credential tpye '' @ ty @ '' on account_id '' @ ac @ '', domain_id '' @ dm
                  @ '', device_id '' @ dv @ '' can't find after POST'')"
    and "rdata (snd (resourceDeviceLocalDomainAccountCredentialCreate e c w)) = rdata w"
    by (simp_all add: addDeviceLocalDomainAccountCredential_rdata w4_def)
qed

lemma externalauth_ldap_create_lost:
  fixes e c w name
  defines "w1 \<equiv> w\<lparr>requests := requests w @ [get_request (''/externalauths/'' @ name)]\<rparr>"
  assumes "bastionAPIVersion c = versionValidate3_3 e"
    and "get_string (rdata w) ''authentication_name'' = Ok name"
    and "fst (searchResourceExternalAuthLdap e c name (requests w)) = Ok (i0, False)"
    and "ldap_missing_login (rdata w) = Ok False"
    and "fst (addExternalAuthLdap c w1) = Ok ()"
    and "fst (searchResourceExternalAuthLdap e c name (requests (snd (addExternalAuthLdap c w1))))
           = Ok (i, False)"
  shows "fst (resourceExternalAuthLdapCreate e c w)
           = Err (''authentication_name '' @ name @ '' can't find after POST'')"
    and "rdata (snd (resourceExternalAuthLdapCreate e c w)) = rdata w"
proof -
  have s1: "searchResourceExternalAuthLdap e c name (requests w) = (Ok (i0, False), requests w1)"
    using assms(4) by (simp add: searchResourceExternalAuthLdap_eq Let_def w1_def)
  obtain l3 where s2: "searchResourceExternalAuthLdap e c name
                         (requests (snd (addExternalAuthLdap c w1))) = (Ok (i, False), l3)"
    using assms(7)
    by (cases "searchResourceExternalAuthLdap e c name (requests (snd (addExternalAuthLdap c w1)))")
      simp
  have w1': "w\<lparr>requests := requests w1\<rparr> = w1" and d1: "rdata w1 = rdata w"
    by (simp_all add: w1_def)
  have "resourceExternalAuthLdapCreate e c w =
          (Err (''authentication_name '' @ name @ '' can't find after POST''),
           (snd (addExternalAuthLdap c w1))\<lparr>requests := l3\<rparr>)"
    using assms(2,3,5) s1 s2 d1
    by (simp add: resourceExternalAuthLdapCreate_def resourveExternalAuthLdapVersionCheck_def
        bindA_check_None bindA_reads bindA_on_net failA_def w1'
        bindA_fst_Ok[where m = "addExternalAuthLdap c", OF assms(6)])
  then show "fst (resourceExternalAuthLdapCreate e c w)
           = Err (''authentication_name '' @ name @ '' can't find after POST'')"
    and "rdata (snd (resourceExternalAuthLdapCreate e c w)) = rdata w"
    by (simp_all add: addExternalAuthLdap_rdata w1_def)
qed

text \<open>
  C6. Duplicate-identity precondition: when the version is accepted and the first Locator
  query of Create reports the identity key as found (the application name, the credential
  tuple after its three parents were read and exist, or the authentication name), Create
  returns the \<open>already exists\<close> error and the only request it has added is the GET of
  that query: no POST is made.
\<close>

theorem create_rejects_existing_identity:
  "(bastionAPIVersion c = versionValidate3_3 e
    \<and> get_string (rdata w) ''application_name'' = Ok name
    \<and> fst (searchResourceApplication e c name (requests w)) = Ok (i, True) \<longrightarrow>
      resourceApplicationCreate e c w =
        (Err (''application_name '' @ name @ '' already exists''),
         w\<lparr>requests := requests w
              @ [get_request ''/applications/?fields=application_name,id&limit=-1'']\<rparr>))
   \<and> (bastionAPIVersion c' = versionValidate3_3 e
      \<and> get_string (rdata w') ''device_id'' = Ok dv \<and> get_string (rdata w') ''domain_id'' = Ok dm
      \<and> get_string (rdata w') ''account_id'' = Ok ac \<and> get_string (rdata w') ''type'' = Ok ty
      \<and> readDeviceOptions e c' dv (requests w') = (Ok dvID, l1) \<and> dvID \<noteq> []
      \<and> readDeviceLocalDomainOptions e c' dv dm l1 = (Ok dmID, l2) \<and> dmID \<noteq> []
      \<and> readDeviceLocalDomainAccountOptions e c' dv dm ac l2 = (Ok acID, l3) \<and> acID \<noteq> []
      \<and> fst (searchResourceDeviceLocalDomainAccountCredential e c' dv dm ac ty l3) = Ok (i', True)
      \<longrightarrow>
      resourceDeviceLocalDomainAccountCredentialCreate e c' w' =
        (Err (''credential tpye '' @ ty @ '' on account_id '' @ ac @ '', domain_id '' @ dm
              @ '', device_id '' @ dv @ '' already exists''),
         w'\<lparr>requests := l3 @ [get_request (credentials_path dv dm ac)]\<rparr>))
   \<and> (bastionAPIVersion c'' = versionValidate3_3 e
      \<and> get_string (rdata w'') ''authentication_name'' = Ok name''
      \<and> fst (searchResourceExternalAuthLdap e c'' name'' (requests w'')) = Ok (i'', True) \<longrightarrow>
      resourceExternalAuthLdapCreate e c'' w'' =
        (Err (''authentication_name '' @ name'' @ '' already exists''),
         w''\<lparr>requests := requests w'' @ [get_request (''/externalauths/'' @ name'')]\<rparr>))"
  using application_create_duplicate[of c e w name i]
    credential_create_duplicate[of c' e w' dv dm ac ty dvID l1 dmID l2 acID l3 i']
    externalauth_ldap_create_duplicate[of c'' e w'' name'' i'']
  by blast

lemma example_strings:
  "get_string example_credential ''device_id'' = Ok ''dev1''"
  "get_string example_credential ''domain_id'' = Ok ''dom2''"
  "get_string example_credential ''account_id'' = Ok ''acc3''"
  "get_string example_credential ''type'' = Ok ''ssh_key''"
  "get_string example_application ''application_name'' = Ok ''app1''"
  "get_string example_application_no_domains ''application_name'' = Ok ''app1''"
  "get_string example_ldap ''authentication_name'' = Ok ''ldap1''"
  by (simp_all add: get_string_def as_string_def d_Get_def example_credential_def
      credentialSchema_def example_application_def example_application_no_domains_def
      applicationSchema_def example_ldap_def externalAuthLdapSchema_def)

lemma stub_env_simps:
  "versionValidate3_3 stub_env = ''v3.3''"
  "unmarshalApplications stub_env ''[]'' = Inr []"
  "unmarshalApplications stub_env ''[one]'' = Inr [listed_application]"
  "unmarshalCredentials stub_env ''[]'' = Inr []"
  "unmarshalCredentials stub_env ''[one]'' = Inr [listed_credential]"
  "unmarshalExternalAuthLdaps stub_env ''[]'' = Inr []"
  "unmarshalExternalAuthLdaps stub_env ''[one]'' = Inr [listed_ldap]"
  "unmarshalLocalpasswordpolicies stub_env ''[]'' = Inr []"
  "unmarshalLocalpasswordpolicies stub_env ''[one]'' = Inr [listed_policy]"
  "readDeviceOptions stub_env c dv l = (Ok dv, l @ [get_request (''/devices/'' @ dv)])"
  "readDeviceLocalDomainOptions stub_env c dv dm l =
     (Ok dm, l @ [get_request (''/devices/'' @ dv @ ''/localdomains/'' @ dm)])"
  "readDeviceLocalDomainAccountOptions stub_env c dv dm ac l =
     (Ok ac, l @ [get_request (''/devices/'' @ dv @ ''/localdomains/'' @ dm
                                @ ''/accounts/'' @ ac)])"
  by (simp_all add: stub_env_def)

text \<open>
  The three Creates against a stub whose lists hold the identity being created.
\<close>

theorem create_rejects_existing_identity_witness:
  "resourceApplicationCreate stub_env
     \<lparr>bastionAPIVersion = ''v3.3'', transport = accept_post ''[one]''\<rparr>
     \<lparr>rdata = example_application, requests = []\<rparr>
     = (Err ''application_name app1 already exists'',
        \<lparr>rdata = example_application,
         requests = [get_request ''/applications/?fields=application_name,id&limit=-1'']\<rparr>)
   \<and> resourceDeviceLocalDomainAccountCredentialCreate stub_env
       \<lparr>bastionAPIVersion = ''v3.3'', transport = accept_post ''[one]''\<rparr>
       \<lparr>rdata = example_credential, requests = []\<rparr>
     = (Err ''credential tpye ssh_key on account_id acc3, domain_id dom2, device_id dev1 already exists'',
        \<lparr>rdata = example_credential,
         requests = [get_request ''/devices/dev1'',
                     get_request ''/devices/dev1/localdomains/dom2'',
                     get_request ''/devices/dev1/localdomains/dom2/accounts/acc3'',
                     get_request ''/devices/dev1/localdomains/dom2/accounts/acc3/credentials/'']\<rparr>)
   \<and> resourceExternalAuthLdapCreate stub_env
       \<lparr>bastionAPIVersion = ''v3.3'', transport = accept_post ''[one]''\<rparr>
       \<lparr>rdata = example_ldap, requests = []\<rparr>
     = (Err ''authentication_name ldap1 already exists'',
        \<lparr>rdata = example_ldap, requests = [get_request ''/externalauths/ldap1'']\<rparr>)"
  using create_rejects_existing_identity
    [where e = stub_env
       and c = "\<lparr>bastionAPIVersion = ''v3.3'', transport = accept_post ''[one]''\<rparr>"
       and w = "\<lparr>rdata = example_application, requests = []\<rparr>"
       and name = "''app1''" and i = "''42''"
       and c' = "\<lparr>bastionAPIVersion = ''v3.3'', transport = accept_post ''[one]''\<rparr>"
       and w' = "\<lparr>rdata = example_credential, requests = []\<rparr>"
       and dv = "''dev1''" and dm = "''dom2''" and ac = "''acc3''" and ty = "''ssh_key''"
       and dvID = "''dev1''" and dmID = "''dom2''" and acID = "''acc3''"
       and ?l1.0 = "[get_request ''/devices/dev1'']"
       and ?l2.0 = "[get_request ''/devices/dev1'', get_request ''/devices/dev1/localdomains/dom2'']"
       and ?l3.0 = "[get_request ''/devices/dev1'', get_request ''/devices/dev1/localdomains/dom2'',
                     get_request ''/devices/dev1/localdomains/dom2/accounts/acc3'']"
       and i' = "''7''"
       and c'' = "\<lparr>bastionAPIVersion = ''v3.3'', transport = accept_post ''[one]''\<rparr>"
       and w'' = "\<lparr>rdata = example_ldap, requests = []\<rparr>"
       and name'' = "''ldap1''" and i'' = "''9''"]
  by (simp add: example_strings stub_env_simps searchResourceApplication_eq
      searchResourceDeviceLocalDomainAccountCredential_eq searchResourceExternalAuthLdap_eq
      accept_post_def get_request_def credentials_path_def listed_application_def
      listed_credential_def listed_ldap_def zero_jsonApplication_def
      zero_jsonDeviceLocalDomainAccountCredential_def zero_jsonExternalAuthLdap_def)

lemma addApplication_eq:
  assumes "prepareApplicationJSON d = Ok j"
  shows "addApplication c \<lparr>rdata = d, requests = l\<rparr> =
     (let rq = \<lparr>req_path = ''/applications/'', req_method = http_MethodPost,
                 req_body = ApplicationBody j\<rparr>;
          r = transport c l rq
      in (case resp_err r of Some err \<Rightarrow> Err err | None \<Rightarrow>
          if resp_code r \<noteq> 200 \<and> resp_code r \<noteq> 204
          then Err (''api doesn't return OK or NoContent : '' @ fmt_d (resp_code r)
                    @ '' with body :'' @ [CHR 0x0A] @ resp_body r)
          else Ok (),
          \<lparr>rdata = d, requests = l @ [rq]\<rparr>))"
  using assms
  by (simp add: addApplication_def bindA_reads bindA_on_net newRequest_def Let_def failA_def
      returnA_def split: option.splits)

lemma addDeviceLocalDomainAccountCredential_eq:
  assumes "prepareDeviceLocalDomainAccountCredentialJSON d True = Ok j"
    and "get_string d ''device_id'' = Ok dv" "get_string d ''domain_id'' = Ok dm"
      "get_string d ''account_id'' = Ok ac"
  shows "addDeviceLocalDomainAccountCredential c \<lparr>rdata = d, requests = l\<rparr> =
     (let rq = \<lparr>req_path = credentials_path dv dm ac, req_method = http_MethodPost,
                 req_body = CredentialBody j\<rparr>;
          r = transport c l rq
      in (case resp_err r of Some err \<Rightarrow> Err err | None \<Rightarrow>
          if resp_code r \<noteq> 200 \<and> resp_code r \<noteq> 204
          then Err (''api return not OK or NoContent : '' @ fmt_d (resp_code r)
                    @ '' with body '' @ resp_body r)
          else Ok (),
          \<lparr>rdata = d, requests = l @ [rq]\<rparr>))"
  using assms
  by (simp add: addDeviceLocalDomainAccountCredential_def bindA_reads bindA_on_net newRequest_def
      Let_def failA_def returnA_def split: option.splits)

lemma addExternalAuthLdap_eq:
  assumes "prepareExternalAuthLdapJSON d = Ok j"
  shows "addExternalAuthLdap c \<lparr>rdata = d, requests = l\<rparr> =
     (let rq = \<lparr>req_path = ''/externalauths/'', req_method = http_MethodPost,
                 req_body = LdapBody j\<rparr>;
          r = transport c l rq
      in (case resp_err r of Some err \<Rightarrow> Err err | None \<Rightarrow>
          if resp_code r \<noteq> 200 \<and> resp_code r \<noteq> 204
          then Err (''api return not OK or NoContent : '' @ fmt_d (resp_code r)
                    @ '' with body '' @ resp_body r)
          else Ok (),
          \<lparr>rdata = d, requests = l @ [rq]\<rparr>))"
  using assms
  by (simp add: addExternalAuthLdap_def bindA_reads bindA_on_net newRequest_def Let_def failA_def
      returnA_def split: option.splits)

lemma prepare_example_credential:
  "prepareDeviceLocalDomainAccountCredentialJSON example_credential True =
     Ok \<lparr>cred_ID = [], cred_Type = ''ssh_key'', cred_Password = [], cred_PrivateKey = ''KEY'',
         cred_PublicKey = [], cred_Passphrase = ''hunter2''\<rparr>"
  by (simp add: prepareDeviceLocalDomainAccountCredentialJSON_def bindR_def get_string_def
      as_string_def d_Get_def example_credential_def credentialSchema_def Let_def
      zero_jsonDeviceLocalDomainAccountCredential_def)

lemma prepare_example_ldap:
  "prepareExternalAuthLdapJSON example_ldap =
     Ok \<lparr>ldap_IsActiveDirectory = False, ldap_IsAnonymousAccess = False,
         ldap_IsProtectedUser = False, ldap_IsSSL = False, ldap_IsStartTLS = False,
         ldap_UsePrimaryAuthDomain = False, ldap_Port = 636, ldap_Timeout = 10, ldap_ID = [],
         ldap_AuthenticationName = ''ldap1'', ldap_CACertificate = [], ldap_Certificate = [],
         ldap_CNAttribute = ''cn'', ldap_Description = [], ldap_LDAPBase = ''dc=example,dc=com'',
         ldap_Login = ''admin'', ldap_LoginAttribute = ''uid'', ldap_Host = ''ldap.example.com'',
         ldap_Password = ''hunter2'', ldap_PrivateKey = ''KEY'', ldap_Type = ''LDAP''\<rparr>"
  by (simp add: prepareExternalAuthLdapJSON_def bindR_def get_string_def get_bool_def as_bool_def
      as_string_def as_int_def as_float64_def d_Get_def example_ldap_def externalAuthLdapSchema_def)

lemma example_ldap_login: "ldap_missing_login example_ldap = Ok False"
  by (simp add: ldap_missing_login_def bindR_def get_string_def get_bool_def as_bool_def
      as_string_def d_Get_def example_ldap_def externalAuthLdapSchema_def)

text \<open>
  C5. Post-create verification: when the version is accepted, the first Locator query
  reports not-found, the POST succeeds and the Locator query made right after it still
  reports not-found, Create returns the \<open>can't find after POST\<close> error and the resource
  data, its id included, is as it was before Create: \<open>SetId\<close> is never reached.
\<close>

theorem create_lost_after_post_is_error:
  "(bastionAPIVersion c = versionValidate3_3 e
    \<and> get_string (rdata w) ''application_name'' = Ok name
    \<and> fst (searchResourceApplication e c name (requests w)) = Ok (i0, False)
    \<and> w1 = w\<lparr>requests := requests w
                  @ [get_request ''/applications/?fields=application_name,id&limit=-1'']\<rparr>
    \<and> fst (addApplication c w1) = Ok ()
    \<and> fst (searchResourceApplication e c name (requests (snd (addApplication c w1))))
        = Ok (i, False) \<longrightarrow>
      fst (resourceApplicationCreate e c w)
        = Err (''application_name '' @ name @ '' can't find after POST'')
      \<and> rdata (snd (resourceApplicationCreate e c w)) = rdata w)
   \<and> (bastionAPIVersion c' = versionValidate3_3 e
      \<and> get_string (rdata w') ''device_id'' = Ok dv \<and> get_string (rdata w') ''domain_id'' = Ok dm
      \<and> get_string (rdata w') ''account_id'' = Ok ac \<and> get_string (rdata w') ''type'' = Ok ty
      \<and> readDeviceOptions e c' dv (requests w') = (Ok dvID, l1) \<and> dvID \<noteq> []
      \<and> readDeviceLocalDomainOptions e c' dv dm l1 = (Ok dmID, l2) \<and> dmID \<noteq> []
      \<and> readDeviceLocalDomainAccountOptions e c' dv dm ac l2 = (Ok acID, l3) \<and> acID \<noteq> []
      \<and> fst (searchResourceDeviceLocalDomainAccountCredential e c' dv dm ac ty l3) = Ok (i0', False)
      \<and> w4 = w'\<lparr>requests := l3 @ [get_request (credentials_path dv dm ac)]\<rparr>
      \<and> fst (addDeviceLocalDomainAccountCredential c' w4) = Ok ()
      \<and> fst (searchResourceDeviceLocalDomainAccountCredential e c' dv dm ac ty
                (requests (snd (addDeviceLocalDomainAccountCredential c' w4)))) = Ok (i', False)
      \<longrightarrow>
      fst (resourceDeviceLocalDomainAccountCredentialCreate e c' w')
        = Err (''credential tpye '' @ ty @ '' on account_id '' @ ac @ '', domain_id '' @ dm
               @ '', device_id '' @ dv @ '' can't find after POST'')
      \<and> rdata (snd (resourceDeviceLocalDomainAccountCredentialCreate e c' w')) = rdata w')
   \<and> (bastionAPIVersion c'' = versionValidate3_3 e
      \<and> get_string (rdata w'') ''authentication_name'' = Ok name''
      \<and> fst (searchResourceExternalAuthLdap e c'' name'' (requests w'')) = Ok (i0'', False)
      \<and> ldap_missing_login (rdata w'') = Ok False
      \<and> w1'' = w''\<lparr>requests := requests w'' @ [get_request (''/externalauths/'' @ name'')]\<rparr>
      \<and> fst (addExternalAuthLdap c'' w1'') = Ok ()
      \<and> fst (searchResourceExternalAuthLdap e c'' name''
                (requests (snd (addExternalAuthLdap c'' w1'')))) = Ok (i'', False) \<longrightarrow>
      fst (resourceExternalAuthLdapCreate e c'' w'')
        = Err (''authentication_name '' @ name'' @ '' can't find after POST'')
      \<and> rdata (snd (resourceExternalAuthLdapCreate e c'' w'')) = rdata w'')"
  by (intro conjI impI; elim conjE; hypsubst;
      (rule application_create_lost credential_create_lost externalauth_ldap_create_lost;
       assumption))

text \<open>
  The three Creates against a stub that accepts every POST with 204 and lists nothing.
\<close>

theorem create_lost_after_post_is_error_witness:
  "fst (resourceApplicationCreate stub_env
          \<lparr>bastionAPIVersion = ''v3.3'', transport = accept_post ''[]''\<rparr>
          \<lparr>rdata = example_application_no_domains, requests = []\<rparr>)
     = Err ''application_name app1 can't find after POST''
   \<and> rdata (snd (resourceApplicationCreate stub_env
          \<lparr>bastionAPIVersion = ''v3.3'', transport = accept_post ''[]''\<rparr>
          \<lparr>rdata = example_application_no_domains, requests = []\<rparr>))
     = example_application_no_domains
   \<and> fst (resourceDeviceLocalDomainAccountCredentialCreate stub_env
          \<lparr>bastionAPIVersion = ''v3.3'', transport = accept_post ''[]''\<rparr>
          \<lparr>rdata = example_credential, requests = []\<rparr>)
     = Err ''credential tpye ssh_key on account_id acc3, domain_id dom2, device_id dev1 can't find after POST''
   \<and> rdata (snd (resourceDeviceLocalDomainAccountCredentialCreate stub_env
          \<lparr>bastionAPIVersion = ''v3.3'', transport = accept_post ''[]''\<rparr>
          \<lparr>rdata = example_credential, requests = []\<rparr>))
     = example_credential
   \<and> fst (resourceExternalAuthLdapCreate stub_env
          \<lparr>bastionAPIVersion = ''v3.3'', transport = accept_post ''[]''\<rparr>
          \<lparr>rdata = example_ldap, requests = []\<rparr>)
     = Err ''authentication_name ldap1 can't find after POST''
   \<and> rdata (snd (resourceExternalAuthLdapCreate stub_env
          \<lparr>bastionAPIVersion = ''v3.3'', transport = accept_post ''[]''\<rparr>
          \<lparr>rdata = example_ldap, requests = []\<rparr>))
     = example_ldap"
  using create_lost_after_post_is_error
    [where e = stub_env
       and c = "\<lparr>bastionAPIVersion = ''v3.3'', transport = accept_post ''[]''\<rparr>"
       and w = "\<lparr>rdata = example_application_no_domains, requests = []\<rparr>"
       and name = "''app1''" and ?i0.0 = "[]" and i = "[]"
       and ?w1.0 = "\<lparr>rdata = example_application_no_domains,
             requests = [get_request ''/applications/?fields=application_name,id&limit=-1'']\<rparr>"
       and c' = "\<lparr>bastionAPIVersion = ''v3.3'', transport = accept_post ''[]''\<rparr>"
       and w' = "\<lparr>rdata = example_credential, requests = []\<rparr>"
       and dv = "''dev1''" and dm = "''dom2''" and ac = "''acc3''" and ty = "''ssh_key''"
       and dvID = "''dev1''" and dmID = "''dom2''" and acID = "''acc3''"
       and ?l1.0 = "[get_request ''/devices/dev1'']"
       and ?l2.0 = "[get_request ''/devices/dev1'', get_request ''/devices/dev1/localdomains/dom2'']"
       and ?l3.0 = "[get_request ''/devices/dev1'', get_request ''/devices/dev1/localdomains/dom2'',
                     get_request ''/devices/dev1/localdomains/dom2/accounts/acc3'']"
       and i0' = "[]" and i' = "[]"
       and ?w4.0 = "\<lparr>rdata = example_credential,
             requests = [get_request ''/devices/dev1'', get_request ''/devices/dev1/localdomains/dom2'',
                         get_request ''/devices/dev1/localdomains/dom2/accounts/acc3'',
                         get_request ''/devices/dev1/localdomains/dom2/accounts/acc3/credentials/'']\<rparr>"
       and c'' = "\<lparr>bastionAPIVersion = ''v3.3'', transport = accept_post ''[]''\<rparr>"
       and w'' = "\<lparr>rdata = example_ldap, requests = []\<rparr>"
       and name'' = "''ldap1''" and i0'' = "[]" and i'' = "[]"
       and w1'' = "\<lparr>rdata = example_ldap, requests = [get_request ''/externalauths/ldap1'']\<rparr>"]
  by (simp add: example_strings stub_env_simps example_ldap_login
      addApplication_eq[OF prepare_example_no_domains]
      addDeviceLocalDomainAccountCredential_eq[OF prepare_example_credential example_strings(1-3)]
      addExternalAuthLdap_eq[OF prepare_example_ldap]
      searchResourceApplication_eq
      searchResourceDeviceLocalDomainAccountCredential_eq searchResourceExternalAuthLdap_eq
      accept_post_def get_request_def credentials_path_def Let_def)

section \<open>Import\<close>

text \<open>
  C8. Import key arity check: when the version is accepted and the given id does not split
  on \<open>/\<close> into exactly four segments, Import of the device local-domain account
  credential returns the format error and leaves data and record of requests as they were:
  no request is made.
\<close>

theorem import_rejects_wrong_segment_count:
  assumes "bastionAPIVersion c = versionValidate3_3 e"
    and "length (strings_Split (rd_id (rdata w)) CHR ''/'') \<noteq> 4"
  shows "resourceDeviceLocalDomainAccountCredentialImport e c w =
           (Err ''id msut be <device_id>/<domain_id>/<account_id>/<type>'', w)"
  using assms
  by (auto simp: resourceDeviceLocalDomainAccountCredentialImport_def
      resourveDeviceLocalDomainAccountCredentialVersionCheck_def bindA_check_None bindA_reads
      failA_def split: list.splits)

text \<open>
  Import with the three-segment id \<open>dev1/dom2/acc3\<close>.
\<close>

theorem import_rejects_wrong_segment_count_witness:
  "strings_Split ''dev1/dom2/acc3'' CHR ''/'' = [''dev1'', ''dom2'', ''acc3'']
   \<and> resourceDeviceLocalDomainAccountCredentialImport stub_env
       \<lparr>bastionAPIVersion = ''v3.3'', transport = accept_post ''[one]''\<rparr>
       \<lparr>rdata = example_credential\<lparr>rd_id := ''dev1/dom2/acc3''\<rparr>, requests = []\<rparr>
     = (Err ''id msut be <device_id>/<domain_id>/<account_id>/<type>'',
        \<lparr>rdata = example_credential\<lparr>rd_id := ''dev1/dom2/acc3''\<rparr>, requests = []\<rparr>)"
  using import_rejects_wrong_segment_count
    [of "\<lparr>bastionAPIVersion = ''v3.3'', transport = accept_post ''[one]''\<rparr>" stub_env
        "\<lparr>rdata = example_credential\<lparr>rd_id := ''dev1/dom2/acc3''\<rparr>, requests = []\<rparr>"]
  by (simp add: stub_env_simps)

section \<open>The lookup of the data source\<close>

text \<open>
  C10. The lookup of the local password policy data source: when the filtered list query
  answers 200 and decodes to a list, an empty list gives the \<open>not found\<close> error and a
  non-empty list gives its first element, whatever the name that element carries; the
  Locator of the application resource, given an empty list, reports not-found without error.
\<close>

theorem localpasswordpolicy_lookup_takes_first:
  "(r = transport c l (get_request (''/localpasswordpolicies/?q=password_policy_name='' @ name))
    \<and> resp_err r = None \<and> resp_code r = 200
    \<and> unmarshalLocalpasswordpolicies e (resp_body r) = Inr results \<longrightarrow>
      fst (readLocalpasswordpolicyOptions e c name l) =
        (case results of
           [] \<Rightarrow> Err (''password_policy_name '' @ name @ '' not found'')
         | first # rest \<Rightarrow> Ok first))
   \<and> (r' = transport c' l' (get_request ''/applications/?fields=application_name,id&limit=-1'')
      \<and> resp_err r' = None \<and> resp_code r' = 200
      \<and> unmarshalApplications e (resp_body r') = Inr [] \<longrightarrow>
      fst (searchResourceApplication e c' name' l') = Ok ([], False))"
  by (auto simp: readLocalpasswordpolicyOptions_eq searchResourceApplication_eq Let_def
      split: list.splits)

text \<open>
  The lookup of \<open>default\<close> against an empty list, and against a list whose first policy
  is named \<open>strict\<close>.
\<close>

theorem localpasswordpolicy_lookup_takes_first_witness:
  "fst (readLocalpasswordpolicyOptions stub_env
          \<lparr>bastionAPIVersion = ''v3.3'', transport = answer_all ''[]'' 200\<rparr> ''default'' [])
     = Err ''password_policy_name default not found''
   \<and> fst (readLocalpasswordpolicyOptions stub_env
          \<lparr>bastionAPIVersion = ''v3.3'', transport = answer_all ''[one]'' 200\<rparr> ''default'' [])
     = Ok listed_policy
   \<and> lpp_PasswordPolicyName listed_policy = ''strict''
   \<and> fst (searchResourceApplication stub_env
          \<lparr>bastionAPIVersion = ''v3.3'', transport = answer_all ''[]'' 200\<rparr> ''app1'' [])
     = Ok ([], False)"
  using localpasswordpolicy_lookup_takes_first
    [where e = stub_env
       and c = "\<lparr>bastionAPIVersion = ''v3.3'', transport = answer_all ''[]'' 200\<rparr>"
       and l = "[]" and name = "''default''" and results = "[]"
       and r = "\<lparr>resp_body = ''[]'', resp_code = 200, resp_err = None\<rparr>"
       and c' = "\<lparr>bastionAPIVersion = ''v3.3'', transport = answer_all ''[]'' 200\<rparr>"
       and l' = "[]" and name' = "''app1''"
       and r' = "\<lparr>resp_body = ''[]'', resp_code = 200, resp_err = None\<rparr>"]
    localpasswordpolicy_lookup_takes_first
    [where e = stub_env
       and c = "\<lparr>bastionAPIVersion = ''v3.3'', transport = answer_all ''[one]'' 200\<rparr>"
       and l = "[]" and name = "''default''" and results = "[listed_policy]"
       and r = "\<lparr>resp_body = ''[one]'', resp_code = 200, resp_err = None\<rparr>"
       and c' = "\<lparr>bastionAPIVersion = ''v3.3'', transport = answer_all ''[]'' 200\<rparr>"
       and l' = "[]" and name' = "''app1''"
       and r' = "\<lparr>resp_body = ''[]'', resp_code = 200, resp_err = None\<rparr>"]
  by (simp add: stub_env_simps answer_all_def) (simp add: listed_policy_def)

section \<open>Secrets on refresh\<close>

lemma keepsD: "keeps k m \<Longrightarrow> rd_attrs (rdata (snd (m w))) k = rd_attrs (rdata w) k"
  by (simp add: keeps_def)

lemma keeps_bindA:
  assumes "keeps k m" and "\<And>x. keeps k (f x)"
  shows "keeps k (bindA m f)"
  unfolding keeps_def
proof
  fix w
  show "rd_attrs (rdata (snd (bindA m f w))) k = rd_attrs (rdata w) k"
  proof (cases "m w")
    case (Pair r w')
    with keepsD[OF assms(1), of w] have k1: "rd_attrs (rdata w') k = rd_attrs (rdata w) k"
      by simp
    show ?thesis
    proof (cases r)
      case (Ok x)
      with Pair k1 keepsD[OF assms(2), of x w'] show ?thesis by (simp add: bindA_def)
    qed (use Pair k1 in \<open>simp_all add: bindA_def\<close>)
  qed
qed

lemma keeps_simple:
  "keeps k (check err)" "keeps k (failA msg)" "keeps k (returnA x)" "keeps k (on_net n)"
  "keeps k (reads g)"
  by (auto simp: keeps_def check_def failA_def returnA_def on_net_def reads_def
      split: option.splits prod.splits)

lemma keeps_updates:
  assumes "\<And>d d'. f d = Ok d' \<Longrightarrow> rd_attrs d' k = rd_attrs d k"
  shows "keeps k (updates f)"
  using assms by (auto simp: keeps_def updates_def split: result.splits)

lemma keeps_if: "keeps k a \<Longrightarrow> keeps k b \<Longrightarrow> keeps k (if P then a else b)"
  by simp

lemma keeps_case_prod: "(\<And>a b. keeps k (f a b)) \<Longrightarrow> keeps k (case p of (a, b) \<Rightarrow> f a b)"
  by (cases p) simp

lemma keeps_SetId: "keeps k (updates (\<lambda>d. Ok (d_SetId d i)))"
  by (rule keeps_updates) (auto simp: d_SetId_def)

lemma set_or_panic_other:
  "set_or_panic d k' v = Ok d' \<Longrightarrow> k \<noteq> k' \<Longrightarrow> rd_attrs d' k = rd_attrs d k"
  by (erule set_or_panic_OkE) simp

lemma fill_credential_frame:
  assumes "fillDeviceLocalDomainAccountCredential d json = Ok d'"
    and "k \<noteq> ''type''" and "k \<noteq> ''public_key''"
  shows "rd_attrs d' k = rd_attrs d k"
  using assms unfolding fillDeviceLocalDomainAccountCredential_def
  by (elim bindR_OkE set_or_panic_OkE) simp

lemma fill_ldap_frame:
  assumes "fillExternalAuthLdap d json = Ok d'"
    and "k \<notin> {''cn_attribute'', ''host'', ''ldap_base'', ''login'', ''login_attribute'', ''port'',
              ''timeout'', ''ca_certificate'', ''certificate'', ''description'',
              ''is_active_directory'', ''is_anonymous_access'', ''is_protected_user'', ''is_ssl'',
              ''is_starttls'', ''private_key'', ''use_primary_auth_domain''}"
  shows "rd_attrs d' k = rd_attrs d k"
  using assms unfolding fillExternalAuthLdap_def
  by (elim bindR_OkE set_or_panic_OkE) simp

lemma fill_ldap_private_key:
  assumes "fillExternalAuthLdap d json = Ok d'"
  shows "rd_attrs d' ''private_key'' = Some (TFString (ldap_PrivateKey json))"
  using assms unfolding fillExternalAuthLdap_def
  by (elim bindR_OkE set_or_panic_OkE) (simp add: convert_value_same_kind)

lemma fill_credential_secrets:
  assumes "fillDeviceLocalDomainAccountCredential d json = Ok d'"
    and "k \<in> {''password'', ''private_key'', ''passphrase''}"
  shows "rd_attrs d' k = rd_attrs d k"
  using assms by (auto intro: fill_credential_frame)

lemma fill_ldap_password:
  assumes "fillExternalAuthLdap d json = Ok d'"
  shows "rd_attrs d' ''password'' = rd_attrs d ''password''"
  using assms by (rule fill_ldap_frame) simp

lemma keeps_fill_credential:
  assumes "k \<in> {''password'', ''private_key'', ''passphrase''}"
  shows "keeps k (updates (\<lambda>d. fillDeviceLocalDomainAccountCredential d cfg))"
  by (rule keeps_updates) (rule fill_credential_secrets[OF _ assms])

lemma keeps_fill_ldap: "keeps ''password'' (updates (\<lambda>d. fillExternalAuthLdap d cfg))"
  by (rule keeps_updates) (rule fill_ldap_password)

lemma keeps_set_other:
  assumes "k \<noteq> k'"
  shows "keeps k (updates (\<lambda>d. set_or_panic d k' v))"
  by (rule keeps_updates) (rule set_or_panic_other[OF _ assms])

lemma credential_read_keeps:
  assumes "k \<in> {''password'', ''private_key'', ''passphrase''}"
  shows "keeps k (resourceDeviceLocalDomainAccountCredentialRead e c)"
  unfolding resourceDeviceLocalDomainAccountCredentialRead_def
  by (intro keeps_bindA keeps_simple keeps_if keeps_SetId keeps_fill_credential[OF assms])

lemma credential_import_keeps:
  assumes "k \<in> {''password'', ''private_key'', ''passphrase''}"
  shows "keeps k (resourceDeviceLocalDomainAccountCredentialImport e c)"
proof -
  from assms have ne: "k \<noteq> ''device_id''" "k \<noteq> ''domain_id''" "k \<noteq> ''account_id''"
    by auto
  have found: "keeps k
         (bindA (on_net (searchResourceDeviceLocalDomainAccountCredential e c s0 s1 s2 s3)) (\<lambda>(i, ex).
         if \<not> ex
         then failA (''don't find credential with id '' @ given @ '' ''
                     @ ''(id must be <device_id>/<domain_id>/<account_id>/<type>'')
         else
         bindA (on_net (readDeviceLocalDomainAccountCredentialOptions e c s0 s1 s2 i)) (\<lambda>cfg.
         bindA (updates (\<lambda>d. fillDeviceLocalDomainAccountCredential d cfg)) (\<lambda>_.
         bindA (updates (\<lambda>d. Ok (d_SetId d i))) (\<lambda>_.
         bindA (updates (\<lambda>d. set_or_panic d ''device_id'' (TFString s0))) (\<lambda>_.
         bindA (updates (\<lambda>d. set_or_panic d ''domain_id'' (TFString s1))) (\<lambda>_.
         bindA (updates (\<lambda>d. set_or_panic d ''account_id'' (TFString s2))) (\<lambda>_.
         bindA (reads Ok) (\<lambda>d. returnA [d])))))))))" for s0 s1 s2 s3 given
    by (intro keeps_bindA keeps_simple keeps_case_prod keeps_if keeps_SetId
        keeps_fill_credential[OF assms] keeps_set_other[OF ne(1)] keeps_set_other[OF ne(2)]
        keeps_set_other[OF ne(3)])
  have wrong: "keeps k (failA ''id msut be <device_id>/<domain_id>/<account_id>/<type>''
                 :: ResourceData list action)"
    by (rule keeps_simple)
  show ?thesis
    unfolding resourceDeviceLocalDomainAccountCredentialImport_def
    apply (intro keeps_bindA keeps_simple)
    apply (simp only: found wrong split: list.split)
    apply simp
    done
qed

lemma ldap_read_keeps: "keeps ''password'' (resourceExternalAuthLdapRead e c)"
  unfolding resourceExternalAuthLdapRead_def
  by (intro keeps_bindA keeps_simple keeps_if keeps_SetId keeps_fill_ldap)

lemma ldap_import_keeps: "keeps ''password'' (resourceExternalAuthLdapImport e c)"
  unfolding resourceExternalAuthLdapImport_def
  by (intro keeps_bindA keeps_simple keeps_case_prod keeps_if keeps_SetId keeps_fill_ldap)

lemma fill_example_ldap:
  "\<exists>d'. fillExternalAuthLdap example_ldap listed_ldap = Ok d'"
  by (simp add: fillExternalAuthLdap_def bindR_def set_or_panic_def d_Set_def example_ldap_def
      externalAuthLdapSchema_def)

lemma read_example_ldap:
  "resourceExternalAuthLdapRead stub_env
     \<lparr>bastionAPIVersion = ''v3.3'', transport = answer_all ''one'' 200\<rparr>
     \<lparr>rdata = example_ldap, requests = []\<rparr>
   = (case fillExternalAuthLdap example_ldap listed_ldap of
        Panic p \<Rightarrow> (Panic p, \<lparr>rdata = example_ldap, requests = [get_request ''/externalauths/9'']\<rparr>)
      | Err x \<Rightarrow> (Err x, \<lparr>rdata = example_ldap, requests = [get_request ''/externalauths/9'']\<rparr>)
      | Ok d' \<Rightarrow> (Ok (), \<lparr>rdata = d', requests = [get_request ''/externalauths/9'']\<rparr>))"
  by (simp add: resourceExternalAuthLdapRead_def resourveExternalAuthLdapVersionCheck_def
      stub_env_def bindA_check_None bindA_reads bindA_on_net readExternalAuthLdapOptions_eq
      answer_all_def Let_def updates_def listed_ldap_def zero_jsonExternalAuthLdap_def
      example_ldap_def split: result.splits)

text \<open>
  C3 as stated, for the LDAP external authentication resource: the state holds the private
  key \<open>KEY\<close>, the appliance answers with an empty \<open>private_key\<close>, and both
  \<open>fillExternalAuthLdap\<close> and Read leave the empty string in the state.
\<close>

theorem externalauth_ldap_refresh_overwrites_private_key:
  "d_Get example_ldap ''private_key'' = TFString ''KEY''
   \<and> ldap_PrivateKey listed_ldap = []
   \<and> result_Get (fillExternalAuthLdap example_ldap listed_ldap) ''private_key'' = Ok (TFString [])
   \<and> d_Get (rdata (snd (resourceExternalAuthLdapRead stub_env
          \<lparr>bastionAPIVersion = ''v3.3'', transport = answer_all ''one'' 200\<rparr>
          \<lparr>rdata = example_ldap, requests = []\<rparr>))) ''private_key'' = TFString []"
proof -
  obtain d' where f: "fillExternalAuthLdap example_ldap listed_ldap = Ok d'"
    using fill_example_ldap by blast
  have s: "rd_schema d' = externalAuthLdapSchema"
    using f unfolding fillExternalAuthLdap_def
    by (elim bindR_OkE set_or_panic_OkE) (simp add: example_ldap_def)
  have p: "ldap_PrivateKey listed_ldap = []"
    by (simp add: listed_ldap_def zero_jsonExternalAuthLdap_def)
  have g: "d_Get d' ''private_key'' = TFString []"
    using fill_ldap_private_key[OF f] s p by (simp add: d_Get_def externalAuthLdapSchema_def)
  have "d_Get example_ldap ''private_key'' = TFString ''KEY''"
    by (simp add: d_Get_def example_ldap_def externalAuthLdapSchema_def)
  moreover have "result_Get (fillExternalAuthLdap example_ldap listed_ldap) ''private_key''
                   = Ok (TFString [])"
    using f g by (simp add: result_Get_def bindR_def)
  moreover have "d_Get (rdata (snd (resourceExternalAuthLdapRead stub_env
          \<lparr>bastionAPIVersion = ''v3.3'', transport = answer_all ''one'' 200\<rparr>
          \<lparr>rdata = example_ldap, requests = []\<rparr>))) ''private_key'' = TFString []"
    using f g by (simp add: read_example_ldap)
  ultimately show ?thesis using p by simp
qed

text \<open>
  C3. Write-only secrets are not clobbered on refresh. For the device local-domain account
  credential, the fill step, Read and Import leave \<open>password\<close>, \<open>private_key\<close> and
  \<open>passphrase\<close> as they were. For the LDAP external authentication resource, the fill
  step, Read and Import leave \<open>password\<close> as it was, and the fill step writes
  \<open>private_key\<close> from the response.
\<close>

theorem refresh_leaves_secrets_untouched:
  "(\<forall>k \<in> {''password'', ''private_key'', ''passphrase''}.
      (fillDeviceLocalDomainAccountCredential d j = Ok d' \<longrightarrow> rd_attrs d' k = rd_attrs d k)
    \<and> rd_attrs (rdata (snd (resourceDeviceLocalDomainAccountCredentialRead e c w))) k
        = rd_attrs (rdata w) k
    \<and> rd_attrs (rdata (snd (resourceDeviceLocalDomainAccountCredentialImport e c w))) k
        = rd_attrs (rdata w) k)
   \<and> (fillExternalAuthLdap dl jl = Ok dl' \<longrightarrow>
        rd_attrs dl' ''password'' = rd_attrs dl ''password''
      \<and> rd_attrs dl' ''private_key'' = Some (TFString (ldap_PrivateKey jl)))
   \<and> rd_attrs (rdata (snd (resourceExternalAuthLdapRead e cl wl))) ''password''
       = rd_attrs (rdata wl) ''password''
   \<and> rd_attrs (rdata (snd (resourceExternalAuthLdapImport e cl wl))) ''password''
       = rd_attrs (rdata wl) ''password''"
  using fill_credential_secrets[of d j d'] credential_read_keeps[of _ e c, THEN keepsD, of _ w]
    credential_import_keeps[of _ e c, THEN keepsD, of _ w]
    fill_ldap_password[of dl jl dl'] fill_ldap_private_key[of dl jl dl']
    ldap_read_keeps[of e cl, THEN keepsD, of wl] ldap_import_keeps[of e cl, THEN keepsD, of wl]
  by blast

lemma fill_example_credential:
  "\<exists>d'. fillDeviceLocalDomainAccountCredential example_credential listed_credential = Ok d'"
  by (simp add: fillDeviceLocalDomainAccountCredential_def bindR_def set_or_panic_def d_Set_def
      example_credential_def credentialSchema_def)

lemma example_secrets:
  "rd_attrs example_credential ''password'' = None"
  "rd_attrs example_credential ''private_key'' = Some (TFString ''KEY'')"
  "rd_attrs example_credential ''passphrase'' = Some (TFString ''hunter2'')"
  "rd_attrs example_ldap ''password'' = Some (TFString ''hunter2'')"
  "rd_attrs example_ldap ''private_key'' = Some (TFString ''KEY'')"
  by (simp_all add: example_credential_def example_ldap_def)

text \<open>
  Refresh of the example credential and of the example LDAP authentication against a stub
  that answers every request with the listed record.
\<close>

theorem refresh_leaves_secrets_untouched_witness:
  "(\<exists>d'. fillDeviceLocalDomainAccountCredential example_credential listed_credential = Ok d'
       \<and> rd_attrs d' ''password'' = None
       \<and> rd_attrs d' ''private_key'' = Some (TFString ''KEY'')
       \<and> rd_attrs d' ''passphrase'' = Some (TFString ''hunter2''))
   \<and> rd_attrs (rdata (snd (resourceDeviceLocalDomainAccountCredentialRead stub_env
         \<lparr>bastionAPIVersion = ''v3.3'', transport = answer_all ''one'' 200\<rparr>
         \<lparr>rdata = example_credential, requests = []\<rparr>))) ''private_key'' = Some (TFString ''KEY'')
   \<and> rd_attrs (rdata (snd (resourceDeviceLocalDomainAccountCredentialImport stub_env
         \<lparr>bastionAPIVersion = ''v3.3'', transport = answer_all ''one'' 200\<rparr>
         \<lparr>rdata = example_credential, requests = []\<rparr>))) ''passphrase''
       = Some (TFString ''hunter2'')
   \<and> (\<exists>dl'. fillExternalAuthLdap example_ldap listed_ldap = Ok dl'
       \<and> rd_attrs dl' ''password'' = Some (TFString ''hunter2'')
       \<and> rd_attrs dl' ''private_key'' = Some (TFString []))
   \<and> rd_attrs (rdata (snd (resourceExternalAuthLdapRead stub_env
         \<lparr>bastionAPIVersion = ''v3.3'', transport = answer_all ''one'' 200\<rparr>
         \<lparr>rdata = example_ldap, requests = []\<rparr>))) ''password'' = Some (TFString ''hunter2'')
   \<and> rd_attrs (rdata (snd (resourceExternalAuthLdapImport stub_env
         \<lparr>bastionAPIVersion = ''v3.3'', transport = answer_all ''one'' 200\<rparr>
         \<lparr>rdata = example_ldap, requests = []\<rparr>))) ''password'' = Some (TFString ''hunter2'')"
proof -
  obtain d' where f: "fillDeviceLocalDomainAccountCredential example_credential listed_credential
                        = Ok d'"
    using fill_example_credential by blast
  obtain dl' where g: "fillExternalAuthLdap example_ldap listed_ldap = Ok dl'"
    using fill_example_ldap by blast
  have p: "ldap_PrivateKey listed_ldap = []"
    by (simp add: listed_ldap_def zero_jsonExternalAuthLdap_def)
  show ?thesis
    using f g p refresh_leaves_secrets_untouched
      [where d = example_credential and j = listed_credential and d' = d' and e = stub_env
         and c = "\<lparr>bastionAPIVersion = ''v3.3'', transport = answer_all ''one'' 200\<rparr>"
         and w = "\<lparr>rdata = example_credential, requests = []\<rparr>"
         and dl = example_ldap and jl = listed_ldap and dl' = dl'
         and cl = "\<lparr>bastionAPIVersion = ''v3.3'', transport = answer_all ''one'' 200\<rparr>"
         and wl = "\<lparr>rdata = example_ldap, requests = []\<rparr>"]
    by (simp add: example_secrets)
qed

end
